theory Spec2Isabelle
  imports Complex_Main
begin

section \<open>Task model (src/models/task.types.ts)\<close>

datatype task_status = Active | Completed

datatype task_priority = High | Medium | Low

text \<open>
  The interface \<^verbatim>\<open>Task\<close>. The field \<^verbatim>\<open>id\<close> is called \<open>task_id\<close> here (\<open>id\<close> is the
  identity function of HOL). An optional field is an \<open>option\<close>; the date fields stay
  strings, as in the source.
\<close>

record task =
  task_id :: int
  title :: string
  description :: string
  status :: task_status
  priority :: task_priority
  due_date :: "string option"
  created_at :: string
  updated_at :: string

record task_create =
  tc_title :: "string option"
  tc_description :: "string option"
  tc_priority :: "task_priority option"
  tc_due_date :: "string option"

text \<open>
  \<^verbatim>\<open>TaskUpdate\<close>: every field may be missing; \<^verbatim>\<open>due_date\<close> may also be present and
  \<^verbatim>\<open>null\<close> (\<open>Some None\<close>).
\<close>

record task_update =
  tu_title :: "string option"
  tu_description :: "string option"
  tu_status :: "task_status option"
  tu_priority :: "task_priority option"
  tu_due_date :: "string option option"

record task_filters =
  tf_status :: "task_status option"
  tf_priority :: "task_priority option"
  tf_due_date :: "string option"

record task_stats =
  total :: nat
  active :: nat
  completed :: nat
  overdue :: nat

text \<open>\<^verbatim>\<open>ApiResponse<T>\<close>: \<^verbatim>\<open>{ data: T; success: boolean; message?: string }\<close>.\<close>

record 'a api_response =
  data :: 'a
  success :: bool
  message :: "string option"

text \<open>
  \<^verbatim>\<open>TaskAction\<close> (\<^verbatim>\<open>{ type, data }\<close>) with the payloads the mock agent builds: the created
  task, the updated task, the deleted id, the listed tasks.
\<close>

datatype task_action =
  ActCreate task
| ActUpdate task
| ActDelete int
| ActList "task list"
| ActFilter "task list"

section \<open>JavaScript values the code relies on\<close>

text \<open>\<^verbatim>\<open>s || d\<close> on an optional string: \<^verbatim>\<open>undefined\<close> and \<^verbatim>\<open>""\<close> are falsy.\<close>

definition or_string :: "string option \<Rightarrow> string \<Rightarrow> string" where
  "or_string s d = (case s of None \<Rightarrow> d | Some v \<Rightarrow> if v = [] then d else v)"

definition or_priority :: "task_priority option \<Rightarrow> task_priority \<Rightarrow> task_priority" where
  "or_priority p d = (case p of None \<Rightarrow> d | Some v \<Rightarrow> v)"

text \<open>
  A \<^verbatim>\<open>Date\<close> is its time value: milliseconds since the epoch, or \<open>None\<close> for an
  invalid date (\<^verbatim>\<open>NaN\<close>). The platform's parser \<^verbatim>\<open>new Date(string)\<close> is a parameter
  \<open>parseDate\<close> of the functions that call it and the clock is a parameter \<open>now\<close>.
  The local time zone is given by its two offset functions, in milliseconds, as
  ECMAScript has them: \<open>offsetAtUtc z t\<close> is the offset in force at the instant \<open>t\<close>
  (\<^verbatim>\<open>LocalTZA(t, true)\<close>, local time = \<open>t\<close> + offset) and \<open>offsetAtLocal z l\<close> is the
  offset by which the local time \<open>l\<close> is read back (\<^verbatim>\<open>LocalTZA(l, false)\<close>). With
  daylight saving time the offsets change from one instant to the other.
\<close>

type_synonym js_date = "int option"

record time_zone =
  offsetAtUtc :: "int \<Rightarrow> int"
  offsetAtLocal :: "int \<Rightarrow> int"

definition msPerDay :: int where
  "msPerDay = 86400000"

text \<open>The local calendar day an instant falls on, as a day number (days since 1 January 1970).\<close>

definition localDay :: "time_zone \<Rightarrow> int \<Rightarrow> int" where
  "localDay z t = (t + offsetAtUtc z t) div msPerDay"

text \<open>
  \<^verbatim>\<open>d.setHours(0, 0, 0, 0)\<close>: the local time of \<open>d\<close> is cut to the start of its day
  and read back as an instant; an invalid date stays invalid.
\<close>

definition setHours0 :: "time_zone \<Rightarrow> js_date \<Rightarrow> js_date" where
  "setHours0 z d =
     map_option (\<lambda>t. (let l = localDay z t * msPerDay in l - offsetAtLocal z l)) d"

text \<open>\<^verbatim>\<open>a < b\<close> on two dates: a comparison with \<^verbatim>\<open>NaN\<close> is false.\<close>

definition date_lt :: "js_date \<Rightarrow> js_date \<Rightarrow> bool" where
  "date_lt a b = (case a of None \<Rightarrow> False | Some x \<Rightarrow> (case b of None \<Rightarrow> False | Some y \<Rightarrow> x < y))"

section \<open>Statistics (src/services/task-service.ts, calculateStats)\<close>

text \<open>The body of the \<^verbatim>\<open>forEach\<close> callback, on the counters.\<close>

definition stats_step :: "(string \<Rightarrow> js_date) \<Rightarrow> time_zone \<Rightarrow> js_date \<Rightarrow> task_stats \<Rightarrow> task \<Rightarrow> task_stats" where
  "stats_step parseDate z today stats t =
     (if status t = Active then
        (let s1 = stats\<lparr>active := active stats + 1\<rparr> in
         case due_date t of
           None \<Rightarrow> s1
         | Some s \<Rightarrow>
             if s = [] then s1
             else (let dueDate = setHours0 z (parseDate s) in
                   if date_lt dueDate today then s1\<lparr>overdue := overdue s1 + 1\<rparr> else s1))
      else stats\<lparr>completed := completed stats + 1\<rparr>)"

definition calculateStats :: "(string \<Rightarrow> js_date) \<Rightarrow> time_zone \<Rightarrow> int \<Rightarrow> task list \<Rightarrow> task_stats" where
  "calculateStats parseDate z now tasks =
     (let stats = \<lparr>total = length tasks, active = 0, completed = 0, overdue = 0\<rparr>;
          today = setHours0 z (Some now)
      in foldl (stats_step parseDate z today) stats tasks)"

text \<open>
  What the specification counts as overdue: an active task whose due date is a
  calendar date strictly before the current date. \<open>calendarDay\<close> gives the day
  number of the calendar date that a due-date string names (\<open>None\<close> when it names
  none), \<open>today\<close> is the day number of the current local date.
\<close>

definition spec_overdue :: "(string \<Rightarrow> int option) \<Rightarrow> int \<Rightarrow> task \<Rightarrow> bool" where
  "spec_overdue calendarDay today t =
     (status t = Active \<and>
      (case due_date t of
         None \<Rightarrow> False
       | Some s \<Rightarrow> (case calendarDay s of None \<Rightarrow> False | Some d \<Rightarrow> d < today)))"

section \<open>The environment of one operation\<close>

text \<open>
  What an operation of the services reads from outside the program: the build mode
  (\<^verbatim>\<open>process.env.NODE_ENV === 'development'\<close>), the platform's date parser, time zone
  and clock, and the outcome of each call of \<^verbatim>\<open>apiService\<close> the operation may make.
  An outcome is \<open>Inr\<close> the body the server sent, or \<open>Inl\<close> the message of the
  \<^verbatim>\<open>Error\<close> that \<^verbatim>\<open>fetchWithErrorHandling\<close> throws.
\<close>

record env =
  useMockData :: bool
  parseDate :: "string \<Rightarrow> js_date"
  zone :: time_zone
  nowMs :: int
  nowIso :: string
  api_getTasks :: "string + task list"
  api_getTask :: "string + task option"
  api_patchTask :: "string + task option"
  api_getStats :: "string + task_stats"

section \<open>The mock backend (src/unnamed/part_003, class MockService)\<close>

definition mock_initial_tasks :: "task list" where
  "mock_initial_tasks =
     [\<lparr>task_id = 1, title = ''Review project proposal'',
       description = ''Go through the Q4 project proposal and provide feedback'',
       status = Active, priority = High, due_date = Some ''2025-09-28'',
       created_at = ''2025-09-25T10:00:00Z'', updated_at = ''2025-09-25T10:00:00Z''\<rparr>,
      \<lparr>task_id = 2, title = ''Buy groceries'',
       description = ''Milk, eggs, bread, and vegetables'',
       status = Active, priority = Medium, due_date = Some ''2025-09-26'',
       created_at = ''2025-09-25T09:30:00Z'', updated_at = ''2025-09-25T09:30:00Z''\<rparr>,
      \<lparr>task_id = 3, title = ''Call dentist'',
       description = ''Schedule routine cleaning appointment'',
       status = Completed, priority = Low, due_date = None,
       created_at = ''2025-09-24T14:00:00Z'', updated_at = ''2025-09-25T08:00:00Z''\<rparr>]"

text \<open>
  \<^verbatim>\<open>Array.prototype.sort\<close> with a comparator: the sort is stable, so for a consistent
  comparator its result is that of a stable insertion sort. A comparator value
  \<^verbatim>\<open>NaN\<close> counts as \<open>0\<close>.
\<close>

fun insert_cmp :: "('a \<Rightarrow> 'a \<Rightarrow> int) \<Rightarrow> 'a \<Rightarrow> 'a list \<Rightarrow> 'a list" where
  "insert_cmp cmp x [] = [x]"
| "insert_cmp cmp x (y # ys) = (if cmp x y > 0 then y # insert_cmp cmp x ys else x # y # ys)"

definition js_sort :: "('a \<Rightarrow> 'a \<Rightarrow> int) \<Rightarrow> 'a list \<Rightarrow> 'a list" where
  "js_sort cmp xs = foldr (insert_cmp cmp) xs []"

text \<open>\<^verbatim>\<open>(a, b) => new Date(b.updated_at).getTime() - new Date(a.updated_at).getTime()\<close>\<close>

definition updated_cmp :: "(string \<Rightarrow> js_date) \<Rightarrow> task \<Rightarrow> task \<Rightarrow> int" where
  "updated_cmp parse a b =
     (case parse (updated_at b) of
        None \<Rightarrow> 0
      | Some tb \<Rightarrow> (case parse (updated_at a) of None \<Rightarrow> 0 | Some ta \<Rightarrow> tb - ta))"

definition mock_getTasks :: "env \<Rightarrow> task list \<Rightarrow> task list" where
  "mock_getTasks e store = js_sort (updated_cmp (parseDate e)) store"

text \<open>\<^verbatim>\<open>createTask\<close>: the new task and the store after \<^verbatim>\<open>push\<close>.\<close>

definition mock_createTask :: "env \<Rightarrow> task_create \<Rightarrow> task list \<Rightarrow> task \<times> task list" where
  "mock_createTask e taskData store =
     (let newTask =
        \<lparr>task_id = nowMs e,
         title = or_string (tc_title taskData) ''Untitled Task'',
         description = or_string (tc_description taskData) [],
         status = Active,
         priority = or_priority (tc_priority taskData) Medium,
         due_date = tc_due_date taskData,
         created_at = nowIso e,
         updated_at = nowIso e\<rparr>
      in (newTask, store @ [newTask]))"

fun findIndex :: "('a \<Rightarrow> bool) \<Rightarrow> 'a list \<Rightarrow> nat option" where
  "findIndex P [] = None"
| "findIndex P (x # xs) = (if P x then Some 0 else map_option Suc (findIndex P xs))"

text \<open>\<^verbatim>\<open>{ ...task, ...updates, updated_at: new Date().toISOString() }\<close>\<close>

definition apply_updates :: "string \<Rightarrow> task_update \<Rightarrow> task \<Rightarrow> task" where
  "apply_updates stamp u t =
     t\<lparr>title := (case tu_title u of None \<Rightarrow> title t | Some v \<Rightarrow> v),
       description := (case tu_description u of None \<Rightarrow> description t | Some v \<Rightarrow> v),
       status := (case tu_status u of None \<Rightarrow> status t | Some v \<Rightarrow> v),
       priority := (case tu_priority u of None \<Rightarrow> priority t | Some v \<Rightarrow> v),
       due_date := (case tu_due_date u of None \<Rightarrow> due_date t | Some v \<Rightarrow> v),
       updated_at := stamp\<rparr>"

text \<open>\<^verbatim>\<open>updateTask\<close>: \<open>Inl\<close> is the message of the thrown \<^verbatim>\<open>Error\<close>.\<close>

definition mock_updateTask :: "env \<Rightarrow> int \<Rightarrow> task_update \<Rightarrow> task list \<Rightarrow> string + (task \<times> task list)" where
  "mock_updateTask e i updates store =
     (case findIndex (\<lambda>t. task_id t = i) store of
        None \<Rightarrow> Inl ''Task not found''
      | Some taskIndex \<Rightarrow>
          (let t' = apply_updates (nowIso e) updates (store ! taskIndex)
           in Inr (t', store[taskIndex := t'])))"

definition mock_deleteTask :: "int \<Rightarrow> task list \<Rightarrow> string + (bool \<times> task list)" where
  "mock_deleteTask i store =
     (case findIndex (\<lambda>t. task_id t = i) store of
        None \<Rightarrow> Inl ''Task not found''
      | Some taskIndex \<Rightarrow> Inr (True, take taskIndex store @ drop (Suc taskIndex) store))"

section \<open>The task service (src/services/task-service.ts, class TaskService)\<close>

text \<open>
  Every method catches what it throws and answers with an \<^verbatim>\<open>ApiResponse\<close>. The second
  component of a result is the mock store after the call.
\<close>

definition apply_filters :: "task_filters option \<Rightarrow> task list \<Rightarrow> task list" where
  "apply_filters filters ts =
     (case filters of
        None \<Rightarrow> ts
      | Some f \<Rightarrow>
          (let ts1 = (case tf_status f of None \<Rightarrow> ts | Some s \<Rightarrow> filter (\<lambda>t. status t = s) ts)
           in case tf_priority f of None \<Rightarrow> ts1 | Some p \<Rightarrow> filter (\<lambda>t. priority t = p) ts1))"

text \<open>
  \<^verbatim>\<open>getTasks\<close>. With mock data nothing in the \<^verbatim>\<open>try\<close> block throws; without, a failed
  request falls back to the mock tasks (unfiltered), and \<^verbatim>\<open>mockService.getTasks\<close> does
  not throw either: the two \<^verbatim>\<open>success: false\<close> answers of the source are never given.
\<close>

definition svc_getTasks :: "env \<Rightarrow> task_filters option \<Rightarrow> task list \<Rightarrow> task list api_response" where
  "svc_getTasks e filters store =
     (if useMockData e then
        \<lparr>data = apply_filters filters (mock_getTasks e store), success = True, message = None\<rparr>
      else (case api_getTasks e of
              Inr d \<Rightarrow> \<lparr>data = d, success = True, message = None\<rparr>
            | Inl err \<Rightarrow> \<lparr>data = mock_getTasks e store, success = True, message = None\<rparr>))"

definition svc_getTask :: "env \<Rightarrow> int \<Rightarrow> task list \<Rightarrow> task option api_response" where
  "svc_getTask e i store =
     (if useMockData e then
        \<lparr>data = find (\<lambda>t. task_id t = i) (mock_getTasks e store), success = True, message = None\<rparr>
      else (case api_getTask e of
              Inr d \<Rightarrow> \<lparr>data = d, success = True, message = None\<rparr>
            | Inl err \<Rightarrow> \<lparr>data = None, success = False, message = Some err\<rparr>))"

definition svc_updateTask :: "env \<Rightarrow> int \<Rightarrow> task_update \<Rightarrow> task list \<Rightarrow> task option api_response \<times> task list" where
  "svc_updateTask e i updates store =
     (if useMockData e then
        (case mock_updateTask e i updates store of
           Inr (d, store') \<Rightarrow>
             (\<lparr>data = Some d, success = True, message = Some ''Task updated successfully''\<rparr>, store')
         | Inl err \<Rightarrow> (\<lparr>data = None, success = False, message = Some err\<rparr>, store))
      else (case api_patchTask e of
              Inr d \<Rightarrow> (\<lparr>data = d, success = True, message = Some ''Task updated successfully''\<rparr>, store)
            | Inl err \<Rightarrow> (\<lparr>data = None, success = False, message = Some err\<rparr>, store)))"

definition svc_getTaskStats :: "env \<Rightarrow> task list \<Rightarrow> task_stats api_response" where
  "svc_getTaskStats e store =
     (if useMockData e then
        \<lparr>data = calculateStats (parseDate e) (zone e) (nowMs e) (mock_getTasks e store),
         success = True, message = None\<rparr>
      else (case api_getStats e of
              Inr d \<Rightarrow> \<lparr>data = d, success = True, message = None\<rparr>
            | Inl err \<Rightarrow> \<lparr>data = \<lparr>total = 0, active = 0, completed = 0, overdue = 0\<rparr>,
                          success = False, message = Some err\<rparr>))"

definition flip_status :: "task_status \<Rightarrow> task_status" where
  "flip_status s = (if s = Active then Completed else Active)"

definition status_only :: "task_status \<Rightarrow> task_update" where
  "status_only s = \<lparr>tu_title = None, tu_description = None, tu_status = Some s,
                    tu_priority = None, tu_due_date = None\<rparr>"

definition svc_toggleTaskStatus :: "env \<Rightarrow> int \<Rightarrow> task list \<Rightarrow> task option api_response \<times> task list" where
  "svc_toggleTaskStatus e i store =
     (let taskResponse = svc_getTask e i store in
      case data taskResponse of
        None \<Rightarrow> (\<lparr>data = None, success = False, message = Some ''Task not found''\<rparr>, store)
      | Some currentTask \<Rightarrow>
          if \<not> success taskResponse then
            (\<lparr>data = None, success = False, message = Some ''Task not found''\<rparr>, store)
          else (let newStatus = flip_status (status currentTask)
                in svc_updateTask e i (status_only newStatus) store))"

section \<open>The task view model (src/viewmodels/useTaskViewModel.ts)\<close>

record tvm_state =
  tasks :: "task list"
  taskStats :: task_stats
  isLoading :: bool
  error :: "string option"

definition defaultStats :: task_stats where
  "defaultStats = \<lparr>total = 0, active = 0, completed = 0, overdue = 0\<rparr>"

definition tvm_initial :: tvm_state where
  "tvm_initial = \<lparr>tasks = [], taskStats = defaultStats, isLoading = True, error = None\<rparr>"

text \<open>
  \<^verbatim>\<open>refreshTasks\<close>. Each \<^verbatim>\<open>setState\<close> is a functional update of the previous state, so the
  updates compose in program order.
\<close>

definition refreshTasks :: "env \<Rightarrow> task_filters option \<Rightarrow> task list \<Rightarrow> tvm_state \<Rightarrow> tvm_state" where
  "refreshTasks e filters store st =
     (let st1 = st\<lparr>isLoading := True, error := None\<rparr>;
          tasksResponse = svc_getTasks e filters store
      in if \<not> success tasksResponse then
           st1\<lparr>error := Some (or_string (message tasksResponse) ''Failed to fetch tasks''),
               isLoading := False\<rparr>
         else (let statsResponse = svc_getTaskStats e store
               in st1\<lparr>tasks := data tasksResponse,
                       taskStats := (if success statsResponse then data statsResponse else defaultStats),
                       isLoading := False\<rparr>))"

text \<open>The optimistic update of \<^verbatim>\<open>toggleTaskStatus\<close>.\<close>

definition optimistic_flip :: "int \<Rightarrow> task list \<Rightarrow> task list" where
  "optimistic_flip i ts =
     map (\<lambda>t. if task_id t = i then t\<lparr>status := flip_status (status t)\<rparr> else t) ts"

text \<open>
  \<^verbatim>\<open>toggleTaskStatus\<close>: the value returned (\<open>None\<close> for \<^verbatim>\<open>null\<close>), the mock store and the
  state afterwards. The service never throws, so the \<^verbatim>\<open>catch\<close> block runs exactly when
  the response is not a success carrying data.
\<close>

definition toggleTaskStatus :: "env \<Rightarrow> int \<Rightarrow> task list \<Rightarrow> tvm_state \<Rightarrow> task option \<times> task list \<times> tvm_state" where
  "toggleTaskStatus e i store st =
     (let st1 = st\<lparr>error := None\<rparr>;
          st2 = st1\<lparr>tasks := optimistic_flip i (tasks st1)\<rparr>;
          (response, store') = svc_toggleTaskStatus e i store
      in case (if success response then data response else None) of
           Some d \<Rightarrow>
             (let st3 = st2\<lparr>tasks := map (\<lambda>t. if task_id t = i then d else t) (tasks st2)\<rparr>;
                  res = svc_getTaskStats e store';
                  st4 = (if success res then st3\<lparr>taskStats := data res\<rparr> else st3)
              in (Some d, store', st4))
         | None \<Rightarrow>
             (let st3 = refreshTasks e None store' st2
              in (None, store',
                  st3\<lparr>error := Some (or_string (message response) ''Failed to update task status'')\<rparr>)))"

text \<open>A sequence of toggles on one id, one environment per call; counts the calls that succeeded.\<close>

fun toggle_run :: "env list \<Rightarrow> int \<Rightarrow> task list \<Rightarrow> tvm_state \<Rightarrow> nat \<times> task list \<times> tvm_state" where
  "toggle_run [] i store st = (0, store, st)"
| "toggle_run (e # es) i store st =
     (case toggleTaskStatus e i store st of
        (r, store', st') \<Rightarrow>
          (case toggle_run es i store' st' of
             (n, store'', st'') \<Rightarrow> ((if r = None then n else Suc n), store'', st'')))"

text \<open>The cached status of an id: that of the first entry with the id.\<close>

definition status_of :: "int \<Rightarrow> task list \<Rightarrow> task_status option" where
  "status_of i ts = map_option status (find (\<lambda>t. task_id t = i) ts)"

text \<open>The status \<open>s\<close> after an odd (\<open>True\<close>) or even number of flips.\<close>

definition xor_status :: "task_status \<Rightarrow> bool \<Rightarrow> task_status" where
  "xor_status s b = (if b then flip_status s else s)"

text \<open>
  A call of the service's \<^verbatim>\<open>toggleTaskStatus\<close> counts as successful when its response is
  a success that carries the task, which is the test of the view model's \<^verbatim>\<open>if\<close>.
\<close>

definition toggle_ok :: "env \<Rightarrow> int \<Rightarrow> task list \<Rightarrow> bool" where
  "toggle_ok e i store =
     (success (fst (svc_toggleTaskStatus e i store))
      \<and> data (fst (svc_toggleTaskStatus e i store)) \<noteq> None)"

text \<open>
  The setting of the specification's sentence on sequences of toggles: the backend
  holds the task \<open>i\<close> in status \<open>a\<close> and answers accordingly. In the mock build both
  lookups of the service find the task in status \<open>a\<close>: that of \<^verbatim>\<open>getTask\<close> in the list
  sorted by update time and that of \<^verbatim>\<open>updateTask\<close> in the store's own order. In the
  production build the server's answers are given by the environment: a toggle that
  succeeds is answered with the task \<open>i\<close> in the flipped status, and after one that
  does not, the list request of the reload is answered, with the task in status \<open>a\<close>.
\<close>

definition backend_agrees :: "env \<Rightarrow> int \<Rightarrow> task list \<Rightarrow> task_status \<Rightarrow> bool" where
  "backend_agrees e i store a =
     (if useMockData e then
        status_of i (mock_getTasks e store) = Some a \<and> status_of i store = Some a
      else if toggle_ok e i store then
        (case api_patchTask e of
           Inr (Some d) \<Rightarrow> task_id d = i \<and> status d = flip_status a
         | Inr None \<Rightarrow> False
         | Inl err \<Rightarrow> False)
      else
        (case api_getTasks e of
           Inr ts \<Rightarrow> status_of i ts = Some a
         | Inl err \<Rightarrow> False))"

text \<open>
  The same along a sequence of calls, where nothing but the toggles changes the task:
  the status the backend holds is flipped by each successful call and by nothing else.
\<close>

fun backend_agrees_run :: "env list \<Rightarrow> int \<Rightarrow> task list \<Rightarrow> task_status \<Rightarrow> bool" where
  "backend_agrees_run [] i store a = True"
| "backend_agrees_run (e # es) i store a =
     (backend_agrees e i store a
      \<and> backend_agrees_run es i (snd (svc_toggleTaskStatus e i store))
            (if toggle_ok e i store then flip_status a else a))"

section \<open>The mutation handler (src/unnamed/part_000, handleSubmit)\<close>

text \<open>
  The callback the chat interface registers with \<^verbatim>\<open>sendMessage\<close>:
  \<^verbatim>\<open>(action) => { refreshTasks(); }\<close>. It does not read the action.
\<close>

definition onTaskAction :: "env \<Rightarrow> task_action \<Rightarrow> task list \<Rightarrow> tvm_state \<Rightarrow> tvm_state" where
  "onTaskAction e action store st = refreshTasks e None store st"

text \<open>What the specification says \<open>applyMutation\<close> does to the cached collection.\<close>

fun spec_applyMutation :: "task_action \<Rightarrow> task list \<Rightarrow> task list" where
  "spec_applyMutation (ActCreate t) ts = t # ts"
| "spec_applyMutation (ActUpdate t) ts = map (\<lambda>x. if task_id x = task_id t then t else x) ts"
| "spec_applyMutation (ActDelete i) ts = filter (\<lambda>x. task_id x \<noteq> i) ts"
| "spec_applyMutation (ActList provided) ts = provided"
| "spec_applyMutation (ActFilter provided) ts = provided"

section \<open>The connection manager (src/unnamed/part_003, class WebSocketService)\<close>

datatype chat_status = Connected | Connecting | Disconnected | ErrorStatus

datatype ready_state = CONNECTING | OPEN | CLOSING | CLOSED

text \<open>
  The fields of the service. \<open>ws\<close> is the socket held, by its \<^verbatim>\<open>readyState\<close> (\<open>None\<close>
  for \<^verbatim>\<open>null\<close>); the field \<^verbatim>\<open>status\<close> is \<open>ws_status\<close> here. The last two fields are
  the runtime's timers: \<open>timers\<close> holds every pending \<^verbatim>\<open>setTimeout\<close> as (handle,
  delay in ms), \<open>nextHandle\<close> is the handle the next \<^verbatim>\<open>setTimeout\<close> returns. The
  listener arrays are left out: they do not act on the fields.
\<close>

record ws_service =
  ws :: "ready_state option"
  reconnectAttempts :: nat
  reconnectTimeout :: "nat option"
  ws_status :: chat_status
  isManualDisconnect :: bool
  timers :: "(nat \<times> rat) list"
  nextHandle :: nat

definition maxReconnectAttempts :: nat where
  "maxReconnectAttempts = 5"

definition ws_initial :: ws_service where
  "ws_initial = \<lparr>ws = None, reconnectAttempts = 0, reconnectTimeout = None,
                  ws_status = Disconnected, isManualDisconnect = False,
                  timers = [], nextHandle = 1\<rparr>"

definition isConnected :: "ws_service \<Rightarrow> bool" where
  "isConnected s = (ws s = Some OPEN)"

definition updateStatus :: "chat_status \<Rightarrow> ws_service \<Rightarrow> ws_service" where
  "updateStatus st s = s\<lparr>ws_status := st\<rparr>"

text \<open>
  \<^verbatim>\<open>Math.min(1000 * Math.pow(1.5, n), 10000)\<close>, as a rational number: below the cap
  the powers of 1.5 are dyadic fractions, which a double holds exactly.
\<close>

definition reconnect_delay :: "nat \<Rightarrow> rat" where
  "reconnect_delay n = min (1000 * (3 / 2) ^ n) 10000"

text \<open>
  \<^verbatim>\<open>connect\<close>; \<open>ok\<close> says whether \<^verbatim>\<open>new WebSocket(...)\<close> returns (a new socket is
  \<open>CONNECTING\<close>) or throws.
\<close>

definition connect :: "bool \<Rightarrow> ws_service \<Rightarrow> ws_service" where
  "connect ok s =
     (if ws s = Some CONNECTING \<or> ws s = Some OPEN then s
      else (let s1 = updateStatus Connecting s
            in if ok then s1\<lparr>ws := Some CONNECTING\<rparr> else updateStatus ErrorStatus s1))"

text \<open>
  \<^verbatim>\<open>tryReconnect\<close>: the counter is incremented first, the delay is computed from the
  incremented counter, and the new handle overwrites the field.
\<close>

definition tryReconnect :: "ws_service \<Rightarrow> ws_service" where
  "tryReconnect s =
     (if isManualDisconnect s \<or> reconnectAttempts s \<ge> maxReconnectAttempts then s
      else (let s1 = s\<lparr>reconnectAttempts := reconnectAttempts s + 1\<rparr>;
                delay = reconnect_delay (reconnectAttempts s1)
            in s1\<lparr>reconnectTimeout := Some (nextHandle s1),
                   timers := timers s1 @ [(nextHandle s1, delay)],
                   nextHandle := nextHandle s1 + 1\<rparr>))"

definition clearTimeout :: "nat \<Rightarrow> (nat \<times> rat) list \<Rightarrow> (nat \<times> rat) list" where
  "clearTimeout h ts = filter (\<lambda>(h', d). h' \<noteq> h) ts"

definition disconnect :: "ws_service \<Rightarrow> ws_service" where
  "disconnect s =
     (let s1 = s\<lparr>isManualDisconnect := True\<rparr>;
          s2 = (case reconnectTimeout s1 of
                  None \<Rightarrow> s1
                | Some h \<Rightarrow> s1\<lparr>timers := clearTimeout h (timers s1), reconnectTimeout := None\<rparr>);
          s3 = (case ws s2 of None \<Rightarrow> s2 | Some r \<Rightarrow> s2\<lparr>ws := None\<rparr>)
      in updateStatus Disconnected s3)"

text \<open>\<^verbatim>\<open>sendMessage\<close>; \<open>ok\<close> says whether \<^verbatim>\<open>ws.send\<close> returns or throws.\<close>

definition sendMessage :: "bool \<Rightarrow> ws_service \<Rightarrow> ws_service" where
  "sendMessage ok s =
     (if \<not> isConnected s then tryReconnect (updateStatus ErrorStatus s)
      else if ok then s else updateStatus ErrorStatus s)"

definition handleOpen :: "ws_service \<Rightarrow> ws_service" where
  "handleOpen s = updateStatus Connected (s\<lparr>reconnectAttempts := 0, isManualDisconnect := False\<rparr>)"

definition handleClose :: "ws_service \<Rightarrow> ws_service" where
  "handleClose s =
     (let s1 = s\<lparr>ws := None\<rparr>
      in if \<not> isManualDisconnect s1 then tryReconnect (updateStatus Disconnected s1) else s1)"

definition handleError :: "ws_service \<Rightarrow> ws_service" where
  "handleError s =
     (let s1 = updateStatus ErrorStatus s;
          s2 = (case ws s1 of None \<Rightarrow> s1 | Some r \<Rightarrow> s1\<lparr>ws := None\<rparr>)
      in if \<not> isManualDisconnect s2 then tryReconnect s2 else s2)"

text \<open>
  What can happen to the service: a call of its public methods, an event of a socket
  it created, or a pending timer firing (the callback is \<^verbatim>\<open>this.connect()\<close>). An open
  event finds the socket \<open>OPEN\<close>. A timer that fires is no longer pending; the field
  \<^verbatim>\<open>reconnectTimeout\<close> keeps its handle.
\<close>

datatype ws_event =
  CallConnect bool
| CallDisconnect
| CallSend bool
| EvOpen
| EvClose
| EvError
| TimerFires nat bool

fun ws_step :: "ws_service \<Rightarrow> ws_event \<Rightarrow> ws_service" where
  "ws_step s (CallConnect ok) = connect ok s"
| "ws_step s CallDisconnect = disconnect s"
| "ws_step s (CallSend ok) = sendMessage ok s"
| "ws_step s EvOpen = handleOpen (s\<lparr>ws := map_option (\<lambda>r. OPEN) (ws s)\<rparr>)"
| "ws_step s EvClose = handleClose s"
| "ws_step s EvError = handleError s"
| "ws_step s (TimerFires h ok) =
     (if h \<in> fst ` set (timers s) then connect ok (s\<lparr>timers := clearTimeout h (timers s)\<rparr>) else s)"

definition ws_run :: "ws_event list \<Rightarrow> ws_service \<Rightarrow> ws_service" where
  "ws_run evs s = foldl ws_step s evs"



section \<open>The chat view model (src/unnamed/part_004, useChatViewModel)\<close>

datatype message_type = User | Agent | System

record chat_message =
  msg_id :: string
  msg_type :: message_type
  content :: string
  timestamp :: string

record chat_state =
  messages :: "chat_message list"
  isProcessing :: bool
  connectionStatus :: chat_status
  chat_error :: "string option"

text \<open>
  \<^verbatim>\<open>DEFAULT_MESSAGES.WELCOME\<close> (src/lib/constants.ts); the leading emoji U+1F44B is
  written as its four UTF-8 bytes.
\<close>

definition WELCOME :: string where
  "WELCOME = [CHR 0xF0, CHR 0x9F, CHR 0x91, CHR 0x8B] @
     '' Hello! I'm your AI task assistant. How can I help you today? You can ask me to create, update, list, or delete tasks for you.''"

definition welcome_message :: "string \<Rightarrow> chat_message" where
  "welcome_message stamp = \<lparr>msg_id = ''1'', msg_type = Agent, content = WELCOME, timestamp = stamp\<rparr>"

text \<open>\<^verbatim>\<open>clearMessages\<close>; \<open>stamp\<close> is \<^verbatim>\<open>new Date().toISOString()\<close>.\<close>

definition clearMessages :: "string \<Rightarrow> chat_state \<Rightarrow> chat_state" where
  "clearMessages stamp st = st\<lparr>messages := [welcome_message stamp], chat_error := None\<rparr>"

section \<open>Concrete inputs\<close>

text \<open>
  A date parser that knows the strings of the mock data: a date-only string denotes
  midnight UTC, as \<^verbatim>\<open>new Date("YYYY-MM-DD")\<close> does.
\<close>

definition example_parseDate :: "string \<Rightarrow> js_date" where
  "example_parseDate s =
     (if s = ''2025-09-25T10:00:00Z'' then Some 1758794400000
      else if s = ''2025-09-25T09:30:00Z'' then Some 1758792600000
      else if s = ''2025-09-25T08:00:00Z'' then Some 1758787200000
      else if s = ''2025-09-24T14:00:00Z'' then Some 1758722400000
      else if s = ''2025-10-01T12:00:00Z'' then Some 1759320000000
      else if s = ''2025-09-28'' then Some 1759017600000
      else if s = ''2025-09-26'' then Some 1758844800000
      else None)"

text \<open>
  The calendar dates that the due-date strings of the mock data name, as day numbers:
  28 September 2025 is day 20359 and its midnight UTC is the instant
  \<open>20359 * 86400000 = 1759017600000\<close>.
\<close>

definition example_calendarDay :: "string \<Rightarrow> int option" where
  "example_calendarDay s =
     (if s = ''2025-09-28'' then Some 20359
      else if s = ''2025-09-26'' then Some 20357
      else None)"

text \<open>
  Two time zones: UTC, and New York in the second half of 2025 (four hours behind UTC
  until daylight saving time ends at 2025-11-02T06:00Z, five hours behind from then;
  a local time before 02:00 on 2 November is read back with the summer offset).
\<close>

definition utc :: time_zone where
  "utc = \<lparr>offsetAtUtc = (\<lambda>t. 0), offsetAtLocal = (\<lambda>l. 0)\<rparr>"

definition new_york :: time_zone where
  "new_york =
     \<lparr>offsetAtUtc = (\<lambda>t. if t < 1762063200000 then - 14400000 else - 18000000),
      offsetAtLocal = (\<lambda>l. if l < 1762048800000 then - 14400000 else - 18000000)\<rparr>"

text \<open>The development build on 1 October 2025, 12:00 UTC, in the UTC time zone.\<close>

definition mock_env :: env where
  "mock_env = \<lparr>useMockData = True, parseDate = example_parseDate, zone = utc,
                nowMs = 1759320000000, nowIso = ''2025-10-01T12:00:00Z'',
                api_getTasks = Inl ''unused'', api_getTask = Inl ''unused'',
                api_patchTask = Inl ''unused'', api_getStats = Inl ''unused''\<rparr>"

text \<open>
  A connection that opens, and the events of five automatic reconnection attempts
  that all fail: the first connection fails, then each of the five timers fires and
  the connection it starts fails again. A connection that fails raises an error event
  and then a close event.
\<close>

definition connected_service :: ws_service where
  "connected_service = ws_run [CallConnect True, EvOpen] ws_initial"



definition example_chat_state :: chat_state where
  "example_chat_state =
     \<lparr>messages =
        [\<lparr>msg_id = ''1'', msg_type = Agent, content = WELCOME, timestamp = ''2025-10-01T11:00:00Z''\<rparr>,
         \<lparr>msg_id = ''a1'', msg_type = User, content = ''list my tasks'', timestamp = ''2025-10-01T11:01:00Z''\<rparr>,
         \<lparr>msg_id = ''a2'', msg_type = Agent, content = ''Here are your tasks!'', timestamp = ''2025-10-01T11:01:01Z''\<rparr>],
      isProcessing = False, connectionStatus = Connected,
      chat_error = Some ''Failed to send message. Please try again.''\<rparr>"

definition example_task_create :: task_create where
  "example_task_create =
     \<lparr>tc_title = Some [], tc_description = None, tc_priority = None, tc_due_date = Some ''2025-09-28''\<rparr>"

text \<open>
  A task of the production backend, and an environment of the production build in
  which the server still holds that task as active, answers the \<^verbatim>\<open>PATCH\<close> of a toggle
  with an error and serves the task list.
\<close>

definition task5 :: task where
  "task5 = \<lparr>task_id = 5, title = ''Water the plants'', description = [],
            status = Active, priority = Low, due_date = None,
            created_at = ''2025-09-24T14:00:00Z'', updated_at = ''2025-09-24T14:00:00Z''\<rparr>"

definition rejecting_env :: env where
  "rejecting_env = \<lparr>useMockData = False, parseDate = example_parseDate, zone = utc,
       nowMs = 1759320000000, nowIso = ''2025-10-01T12:00:00Z'',
       api_getTasks = Inr [task5], api_getTask = Inr (Some task5),
       api_patchTask = Inl ''HTTP error 500'',
       api_getStats = Inr \<lparr>total = 1, active = 1, completed = 0, overdue = 0\<rparr>\<rparr>"

text \<open>
  The same environment when the list request fails as well, and one in which the server
  accepts the toggle and answers with the task completed.
\<close>

definition list_failing_env :: env where
  "list_failing_env = rejecting_env\<lparr>api_getTasks := Inl ''HTTP error 503''\<rparr>"

definition accepting_env :: env where
  "accepting_env = rejecting_env\<lparr>api_patchTask := Inr (Some (task5\<lparr>status := Completed\<rparr>))\<rparr>"

text \<open>
  The chat interface and the task list each call \<^verbatim>\<open>useTaskViewModel\<close>, so each has a
  cache of its own over the one mock store. \<open>loaded_state\<close> is a cache after its first
  load of the initial tasks. The stores below are the mock store after the agent has
  marked task 1 completed, after the agent has marked task 2 completed (\<open>completed_task_2\<close>
  is the task it then holds), after the agent has deleted task 1, and after the user
  has deleted task 3 in the task list and the agent then task 2.
\<close>

definition loaded_state :: tvm_state where
  "loaded_state = refreshTasks mock_env None mock_initial_tasks tvm_initial"

definition store_after_agent_update :: "task list" where
  "store_after_agent_update =
     (case mock_updateTask mock_env 1 (status_only Completed) mock_initial_tasks of
        Inr (t, store) \<Rightarrow> store | Inl err \<Rightarrow> mock_initial_tasks)"

definition store_after_agent_completes_2 :: "task list" where
  "store_after_agent_completes_2 =
     (case mock_updateTask mock_env 2 (status_only Completed) mock_initial_tasks of
        Inr (t, store) \<Rightarrow> store | Inl err \<Rightarrow> mock_initial_tasks)"

definition completed_task_2 :: task where
  "completed_task_2 = \<lparr>task_id = 2, title = ''Buy groceries'',
       description = ''Milk, eggs, bread, and vegetables'',
       status = Completed, priority = Medium, due_date = Some ''2025-09-26'',
       created_at = ''2025-09-25T09:30:00Z'', updated_at = ''2025-10-01T12:00:00Z''\<rparr>"

definition store_after_agent_deletes_1 :: "task list" where
  "store_after_agent_deletes_1 =
     (case mock_deleteTask 1 mock_initial_tasks of
        Inl err \<Rightarrow> mock_initial_tasks | Inr (ok, store) \<Rightarrow> store)"

definition store_after_two_deletes :: "task list" where
  "store_after_two_deletes =
     (case mock_deleteTask 3 mock_initial_tasks of
        Inl err \<Rightarrow> mock_initial_tasks
      | Inr (ok, store) \<Rightarrow>
          (case mock_deleteTask 2 store of Inl err \<Rightarrow> store | Inr (ok', store') \<Rightarrow> store'))"

text \<open>
  An environment of the production build whose server cannot be reached, and a task
  that this server holds under the id 3. \<open>after_two_toggles\<close> is the outcome of two
  toggles of task 1 in the task list of the mock build, and
  \<open>store_then_agent_completes_1\<close> the mock store when the agent has then marked task 1
  completed.
\<close>

definition down_env :: env where
  "down_env = \<lparr>useMockData = False, parseDate = example_parseDate, zone = utc,
       nowMs = 1759320000000, nowIso = ''2025-10-01T12:00:00Z'',
       api_getTasks = Inl ''Failed to fetch'', api_getTask = Inl ''Failed to fetch'',
       api_patchTask = Inl ''Failed to fetch'', api_getStats = Inl ''Failed to fetch''\<rparr>"

definition server_task_3 :: task where
  "server_task_3 = \<lparr>task_id = 3, title = ''Renew passport'', description = [],
            status = Active, priority = High, due_date = None,
            created_at = ''2025-09-24T14:00:00Z'', updated_at = ''2025-09-24T14:00:00Z''\<rparr>"

definition after_two_toggles :: "nat \<times> task list \<times> tvm_state" where
  "after_two_toggles = toggle_run [mock_env, mock_env] 1 mock_initial_tasks loaded_state"

definition store_then_agent_completes_1 :: "task list" where
  "store_then_agent_completes_1 =
     (case mock_updateTask mock_env 1 (status_only Completed) (fst (snd after_two_toggles)) of
        Inr (t, store) \<Rightarrow> store | Inl err \<Rightarrow> fst (snd after_two_toggles))"

section \<open>Properties of the statistics\<close>

lemma stats_step_total: "total (stats_step p z today s t) = total s"
  by (simp add: stats_step_def Let_def split: option.splits)

lemma stats_step_sum:
  "active (stats_step p z today s t) + completed (stats_step p z today s t)
     = active s + completed s + 1"
  by (simp add: stats_step_def Let_def split: option.splits)

lemma stats_step_overdue_le:
  "overdue s \<le> active s \<Longrightarrow> overdue (stats_step p z today s t) \<le> active (stats_step p z today s t)"
  by (simp add: stats_step_def Let_def split: option.splits)

lemma foldl_stats_total: "total (foldl (stats_step p z today) s ts) = total s"
  by (induction ts arbitrary: s) (simp_all add: stats_step_total)

lemma foldl_stats_sum:
  "active (foldl (stats_step p z today) s ts) + completed (foldl (stats_step p z today) s ts)
     = active s + completed s + length ts"
  by (induction ts arbitrary: s) (simp_all add: stats_step_sum)

lemma foldl_stats_overdue_le:
  "overdue s \<le> active s \<Longrightarrow>
   overdue (foldl (stats_step p z today) s ts) \<le> active (foldl (stats_step p z today) s ts)"
  by (induction ts arbitrary: s) (simp_all add: stats_step_overdue_le)

text \<open>
  Claim C4. Whatever the cached collection, the parser, the time zone and the clock,
  the statistics that \<^verbatim>\<open>calculateStats\<close> computes satisfy
  \<open>active + completed = total\<close> and \<open>overdue \<le> active\<close>.
\<close>

theorem calculateStats_invariant:
  "active (calculateStats p z now ts) + completed (calculateStats p z now ts)
     = total (calculateStats p z now ts)
   \<and> overdue (calculateStats p z now ts) \<le> active (calculateStats p z now ts)"
proof -
  have "active (calculateStats p z now ts) + completed (calculateStats p z now ts) = length ts"
    by (simp add: calculateStats_def foldl_stats_sum)
  moreover have "total (calculateStats p z now ts) = length ts"
    by (simp add: calculateStats_def foldl_stats_total)
  moreover have "overdue (calculateStats p z now ts) \<le> active (calculateStats p z now ts)"
    by (simp add: calculateStats_def foldl_stats_overdue_le)
  ultimately show ?thesis by simp
qed

theorem calculateStats_invariant_witness:
  "active (calculateStats example_parseDate new_york 1759320000000 mock_initial_tasks)
     + completed (calculateStats example_parseDate new_york 1759320000000 mock_initial_tasks)
     = total (calculateStats example_parseDate new_york 1759320000000 mock_initial_tasks)
   \<and> overdue (calculateStats example_parseDate new_york 1759320000000 mock_initial_tasks)
     \<le> active (calculateStats example_parseDate new_york 1759320000000 mock_initial_tasks)"
  by (rule calculateStats_invariant)

text \<open>
  A day of 25 hours: in New York 2 November 2025 runs from 04:00Z to 05:00Z of the next
  day. \<^verbatim>\<open>setHours(0, 0, 0, 0)\<close> sends both its first instant and its last minute to its
  local midnight, so neither is before the other.
\<close>

lemma setHours0_long_day:
  "setHours0 new_york (Some 1762056000000) = Some 1762056000000
   \<and> setHours0 new_york (Some 1762145940000) = Some 1762056000000
   \<and> \<not> date_lt (setHours0 new_york (Some 1762056000000)) (setHours0 new_york (Some 1762145940000))"
  by (simp add: setHours0_def localDay_def new_york_def msPerDay_def date_lt_def Let_def)

lemma stats_new_york:
  "calculateStats example_parseDate new_york 1759071600000 mock_initial_tasks
     = \<lparr>total = 3, active = 2, completed = 1, overdue = 2\<rparr>"
  by (simp add: calculateStats_def stats_step_def setHours0_def localDay_def new_york_def
      msPerDay_def date_lt_def Let_def mock_initial_tasks_def example_parseDate_def)

lemma stats_utc:
  "calculateStats example_parseDate utc 1759071600000 mock_initial_tasks
     = \<lparr>total = 3, active = 2, completed = 1, overdue = 1\<rparr>"
  by (simp add: calculateStats_def stats_step_def setHours0_def localDay_def utc_def
      msPerDay_def date_lt_def Let_def mock_initial_tasks_def example_parseDate_def)

text \<open>
  Claim C5 does not hold of the code. \<^verbatim>\<open>new Date("2025-09-28")\<close> is midnight UTC of
  28 September, which in New York is the evening of 27 September; \<^verbatim>\<open>setHours\<close> cuts it
  to the local midnight of 27 September, which is before the local midnight of
  28 September. So at 11:00 local time on 28 September 2025 the active task due on
  2025-09-28 counts as overdue on its due date: the code counts 2 overdue tasks among
  the three mock tasks, where one task (due 2025-09-26) has a due date strictly before
  the current date. In the UTC zone the code counts that one task. The other three
  statistics are the counts the claim says.
\<close>

theorem calculateStats_overdue_on_due_date:
  "localDay new_york 1759071600000 = 20359
   \<and> example_calendarDay ''2025-09-28'' = Some 20359
   \<and> example_parseDate ''2025-09-28'' = Some (20359 * msPerDay)
   \<and> length (filter (spec_overdue example_calendarDay (localDay new_york 1759071600000))
        mock_initial_tasks) = 1
   \<and> overdue (calculateStats example_parseDate new_york 1759071600000 mock_initial_tasks) = 2
   \<and> overdue (calculateStats example_parseDate utc 1759071600000 mock_initial_tasks) = 1
   \<and> active (calculateStats example_parseDate new_york 1759071600000 mock_initial_tasks) = 2
   \<and> completed (calculateStats example_parseDate new_york 1759071600000 mock_initial_tasks) = 1
   \<and> total (calculateStats example_parseDate new_york 1759071600000 mock_initial_tasks) = 3"
proof -
  have d: "localDay new_york 1759071600000 = 20359"
    by (simp add: localDay_def new_york_def msPerDay_def)
  have c: "length (filter (spec_overdue example_calendarDay 20359) mock_initial_tasks) = 1"
    by (simp add: spec_overdue_def example_calendarDay_def mock_initial_tasks_def)
  show ?thesis
    unfolding d by (simp add: c stats_new_york stats_utc example_calendarDay_def
        example_parseDate_def msPerDay_def)
qed

section \<open>Properties of the mock backend\<close>

text \<open>
  Claim C10. The task that \<^verbatim>\<open>createTask\<close> of the mock backend returns has status
  \<open>active\<close>; its title is \<open>Untitled Task\<close> when the given title is missing or empty
  and the given title otherwise; its description is the given one, or the empty
  string when missing; its priority is the given one, or \<open>medium\<close> when missing.
\<close>

theorem mock_createTask_defaults:
  "status (fst (mock_createTask e taskData store)) = Active
   \<and> title (fst (mock_createTask e taskData store)) =
       (case tc_title taskData of
          None \<Rightarrow> ''Untitled Task''
        | Some v \<Rightarrow> if v = [] then ''Untitled Task'' else v)
   \<and> description (fst (mock_createTask e taskData store)) =
       (case tc_description taskData of None \<Rightarrow> [] | Some v \<Rightarrow> v)
   \<and> priority (fst (mock_createTask e taskData store)) =
       (case tc_priority taskData of None \<Rightarrow> Medium | Some v \<Rightarrow> v)"
  by (simp add: mock_createTask_def or_string_def or_priority_def Let_def split: option.splits)

theorem mock_createTask_defaults_witness:
  "status (fst (mock_createTask mock_env example_task_create mock_initial_tasks)) = Active
   \<and> title (fst (mock_createTask mock_env example_task_create mock_initial_tasks)) = ''Untitled Task''
   \<and> description (fst (mock_createTask mock_env example_task_create mock_initial_tasks)) = []
   \<and> priority (fst (mock_createTask mock_env example_task_create mock_initial_tasks)) = Medium"
  using mock_createTask_defaults [of mock_env example_task_create mock_initial_tasks]
  by (simp add: example_task_create_def)

section \<open>Properties of the chat view model\<close>

text \<open>
  Claim C9. Whatever the transcript was, \<^verbatim>\<open>clearMessages\<close> leaves a transcript of
  length 1 that holds the seeded welcome message, clears the recorded error, and
  leaves the connection status (and the processing flag) as they were.
\<close>

theorem clearMessages_resets:
  "length (messages (clearMessages stamp st)) = 1
   \<and> messages (clearMessages stamp st) =
       [\<lparr>msg_id = ''1'', msg_type = Agent, content = WELCOME, timestamp = stamp\<rparr>]
   \<and> chat_error (clearMessages stamp st) = None
   \<and> connectionStatus (clearMessages stamp st) = connectionStatus st
   \<and> isProcessing (clearMessages stamp st) = isProcessing st"
  by (simp add: clearMessages_def welcome_message_def)

theorem clearMessages_resets_witness:
  "length (messages example_chat_state) = 3
   \<and> length (messages (clearMessages ''2025-10-01T12:00:00Z'' example_chat_state)) = 1
   \<and> chat_error (clearMessages ''2025-10-01T12:00:00Z'' example_chat_state) = None
   \<and> connectionStatus (clearMessages ''2025-10-01T12:00:00Z'' example_chat_state) = Connected"
  using clearMessages_resets [of "''2025-10-01T12:00:00Z''" example_chat_state]
  by (simp add: example_chat_state_def)

section \<open>Properties of the connection manager\<close>


lemma tryReconnect_schedules:
  "\<not> isManualDisconnect s \<Longrightarrow> reconnectAttempts s < maxReconnectAttempts \<Longrightarrow>
   tryReconnect s =
     s\<lparr>reconnectAttempts := reconnectAttempts s + 1,
       reconnectTimeout := Some (nextHandle s),
       timers := timers s @ [(nextHandle s, reconnect_delay (reconnectAttempts s + 1))],
       nextHandle := nextHandle s + 1\<rparr>"
  by (simp add: tryReconnect_def Let_def)

text \<open>
  Claim C6, as the code has it. On a close or an error event, while the
  manual-disconnect flag is clear and the attempt counter \<open>n\<close> is below 5, exactly one
  timer is added, with delay \<open>min (1000 * 1.5 ^ (n + 1)) 10000\<close> milliseconds (the
  exponent is the counter after its increment, so the first retry comes after
  1500 ms), and the counter becomes \<open>n + 1\<close>. While the flag is set, or with the
  counter at 5 or more, the events add no timer and leave the counter. The flag is
  set by \<^verbatim>\<open>disconnect\<close>, which calls no \<^verbatim>\<open>setTimeout\<close>; \<^verbatim>\<open>connect\<close> leaves the flag as
  it is, and only a socket that opens clears it.
\<close>

theorem reconnect_schedule:
  "timers (handleClose s) =
     (if isManualDisconnect s \<or> maxReconnectAttempts \<le> reconnectAttempts s then timers s
      else timers s @ [(nextHandle s, min (1000 * (3 / 2) ^ (reconnectAttempts s + 1)) 10000)])
   \<and> reconnectAttempts (handleClose s) =
     (if isManualDisconnect s \<or> maxReconnectAttempts \<le> reconnectAttempts s then reconnectAttempts s
      else reconnectAttempts s + 1)
   \<and> timers (handleError s) =
     (if isManualDisconnect s \<or> maxReconnectAttempts \<le> reconnectAttempts s then timers s
      else timers s @ [(nextHandle s, min (1000 * (3 / 2) ^ (reconnectAttempts s + 1)) 10000)])
   \<and> reconnectAttempts (handleError s) =
     (if isManualDisconnect s \<or> maxReconnectAttempts \<le> reconnectAttempts s then reconnectAttempts s
      else reconnectAttempts s + 1)
   \<and> isManualDisconnect (disconnect s) \<and> nextHandle (disconnect s) = nextHandle s
   \<and> isManualDisconnect (connect ok s) = isManualDisconnect s
   \<and> \<not> isManualDisconnect (handleOpen s)
   \<and> maxReconnectAttempts = 5
   \<and> min (1000 * (3 / 2) ^ (0 + 1)) (10000 :: rat) = 1500"
proof -
  have close: "handleClose s =
      (if isManualDisconnect s then s\<lparr>ws := None\<rparr>
       else tryReconnect (s\<lparr>ws := None, ws_status := Disconnected\<rparr>))"
    by (simp add: handleClose_def updateStatus_def Let_def)
  have c1: "timers (handleClose s) =
     (if isManualDisconnect s \<or> maxReconnectAttempts \<le> reconnectAttempts s then timers s
      else timers s @ [(nextHandle s, min (1000 * (3 / 2) ^ (reconnectAttempts s + 1)) 10000)])"
    unfolding close by (simp add: tryReconnect_def Let_def reconnect_delay_def)
  have c2: "reconnectAttempts (handleClose s) =
     (if isManualDisconnect s \<or> maxReconnectAttempts \<le> reconnectAttempts s then reconnectAttempts s
      else reconnectAttempts s + 1)"
    unfolding close by (simp add: tryReconnect_def Let_def)
  have e1: "timers (handleError s) =
     (if isManualDisconnect s \<or> maxReconnectAttempts \<le> reconnectAttempts s then timers s
      else timers s @ [(nextHandle s, min (1000 * (3 / 2) ^ (reconnectAttempts s + 1)) 10000)])"
    by (cases "ws s")
      (simp_all add: handleError_def updateStatus_def tryReconnect_def Let_def reconnect_delay_def)
  have e2: "reconnectAttempts (handleError s) =
     (if isManualDisconnect s \<or> maxReconnectAttempts \<le> reconnectAttempts s then reconnectAttempts s
      else reconnectAttempts s + 1)"
    by (cases "ws s") (simp_all add: handleError_def updateStatus_def tryReconnect_def Let_def)
  have d: "isManualDisconnect (disconnect s) \<and> nextHandle (disconnect s) = nextHandle s"
    by (simp add: disconnect_def updateStatus_def Let_def split: option.splits)
  have k: "isManualDisconnect (connect ok s) = isManualDisconnect s"
    by (simp add: connect_def updateStatus_def Let_def)
  have o: "\<not> isManualDisconnect (handleOpen s)"
    by (simp add: handleOpen_def updateStatus_def)
  have m: "maxReconnectAttempts = 5" by (simp add: maxReconnectAttempts_def)
  have f: "min (1000 * (3 / 2) ^ (0 + 1)) (10000 :: rat) = 1500" by simp
  from c1 c2 e1 e2 d k o m f show ?thesis by (intro conjI) simp_all
qed

theorem reconnect_schedule_witness:
  "reconnectAttempts connected_service = 0 \<and> \<not> isManualDisconnect connected_service
   \<and> timers (handleClose connected_service) = [(1, 1500)]
   \<and> reconnectAttempts (handleClose connected_service) = 1
   \<and> timers (handleClose (handleClose connected_service)) = [(1, 1500), (2, 2250)]
   \<and> timers (handleClose (disconnect connected_service)) = []"
proof -
  have s: "connected_service =
      \<lparr>ws = Some OPEN, reconnectAttempts = 0, reconnectTimeout = None, ws_status = Connected,
       isManualDisconnect = False, timers = [], nextHandle = 1\<rparr>"
    by (simp add: connected_service_def ws_run_def ws_initial_def connect_def handleOpen_def
        updateStatus_def Let_def)
  have d: "disconnect connected_service =
      \<lparr>ws = None, reconnectAttempts = 0, reconnectTimeout = None, ws_status = Disconnected,
       isManualDisconnect = True, timers = [], nextHandle = 1\<rparr>"
    unfolding s by (simp add: disconnect_def updateStatus_def Let_def)
  have h: "handleClose connected_service =
      \<lparr>ws = None, reconnectAttempts = 1, reconnectTimeout = Some 1, ws_status = Disconnected,
       isManualDisconnect = False, timers = [(1, 1500)], nextHandle = 2\<rparr>"
    unfolding s
    by (simp add: handleClose_def tryReconnect_def updateStatus_def Let_def
        maxReconnectAttempts_def reconnect_delay_def)
  have p: "(1000 * (3 / 2) ^ 2 :: rat) = 2250" by (simp add: power2_eq_square)
  have w1: "timers (handleClose connected_service) = [(1, 1500)]
      \<and> reconnectAttempts (handleClose connected_service) = 1"
    using reconnect_schedule [of connected_service] by (simp add: s maxReconnectAttempts_def)
  have w2: "timers (handleClose (handleClose connected_service)) = [(1, 1500), (2, 2250)]"
    using reconnect_schedule [of "handleClose connected_service"]
    by (simp add: h maxReconnectAttempts_def p)
  have w3: "timers (handleClose (disconnect connected_service)) = []"
    using reconnect_schedule [of "disconnect connected_service"] by (simp add: d)
  from w1 w2 w3 show ?thesis by (simp add: s)
qed

text \<open>
  The claim as the specification states it fails twice. At the first unexpected close
  of an open connection the counter is 0, the claimed delay
  \<open>min (1000 * 1.5 ^ 0) 10000\<close> is 1000 ms, and the timer the code sets has 1500 ms,
  which is not within 1000 ms. And after \<^verbatim>\<open>disconnect\<close> and \<^verbatim>\<open>connect\<close> the flag is
  still set: when the new connection then fails on its own, with the counter at 0,
  the error and the close event schedule nothing.
\<close>

theorem reconnect_schedule_counterexample:
  "ws_status connected_service = Connected
   \<and> \<not> isManualDisconnect connected_service
   \<and> reconnectAttempts connected_service = 0
   \<and> timers (ws_step connected_service EvClose) = [(1, 1500)]
   \<and> (1500 :: rat) \<noteq> min (1000 * (3 / 2) ^ reconnectAttempts connected_service) 10000
   \<and> \<not> (1500 :: rat) \<le> 1000
   \<and> ws (ws_run [CallDisconnect, CallConnect True] connected_service) = Some CONNECTING
   \<and> reconnectAttempts (ws_run [CallDisconnect, CallConnect True] connected_service) = 0
   \<and> timers (ws_run [CallDisconnect, CallConnect True, EvError, EvClose] connected_service) = []"
proof -
  have s: "connected_service =
      \<lparr>ws = Some OPEN, reconnectAttempts = 0, reconnectTimeout = None, ws_status = Connected,
       isManualDisconnect = False, timers = [], nextHandle = 1\<rparr>"
    by (simp add: connected_service_def ws_run_def ws_initial_def connect_def handleOpen_def
        updateStatus_def Let_def)
  have r: "ws_run [CallDisconnect, CallConnect True] connected_service =
      \<lparr>ws = Some CONNECTING, reconnectAttempts = 0, reconnectTimeout = None,
       ws_status = Connecting, isManualDisconnect = True, timers = [], nextHandle = 1\<rparr>"
    unfolding s by (simp add: ws_run_def disconnect_def connect_def updateStatus_def Let_def)
  have f: "ws_run [EvError, EvClose]
       (ws_run [CallDisconnect, CallConnect True] connected_service) =
      \<lparr>ws = None, reconnectAttempts = 0, reconnectTimeout = None,
       ws_status = ErrorStatus, isManualDisconnect = True, timers = [], nextHandle = 1\<rparr>"
    unfolding r by (simp add: ws_run_def handleError_def handleClose_def updateStatus_def Let_def)
  have a: "ws_run [CallDisconnect, CallConnect True, EvError, EvClose] connected_service
      = ws_run [EvError, EvClose] (ws_run [CallDisconnect, CallConnect True] connected_service)"
    by (simp add: ws_run_def)
  have c: "timers (ws_step connected_service EvClose) = [(1, 1500)]"
    unfolding s
    by (simp add: handleClose_def tryReconnect_def updateStatus_def Let_def
        maxReconnectAttempts_def reconnect_delay_def)
  have t: "timers (ws_run [CallDisconnect, CallConnect True, EvError, EvClose] connected_service) = []"
    by (simp add: a f)
  from c t show ?thesis by (simp add: r) (simp add: s)
qed















text \<open>
  Claim C8 does not hold of the code. A connection attempt that fails raises an error
  event and then a close event; each handler calls \<^verbatim>\<open>tryReconnect\<close>, which sets a new
  timer without clearing the one whose handle it overwrites. Two timers are pending;
  \<^verbatim>\<open>disconnect\<close> clears only the one the field holds, and when the other fires the
  service connects again although the disconnect was manual.
\<close>

theorem reconnect_timers_pile_up:
  "timers (ws_run [CallConnect True, EvError, EvClose] ws_initial) = [(1, 1500), (2, 2250)]
   \<and> reconnectTimeout (ws_run [CallConnect True, EvError, EvClose] ws_initial) = Some 2
   \<and> timers (ws_run [CallConnect True, EvError, EvClose, CallDisconnect] ws_initial) = [(1, 1500)]
   \<and> isManualDisconnect
        (ws_run [CallConnect True, EvError, EvClose, CallDisconnect, TimerFires 1 True] ws_initial)
   \<and> ws_status
        (ws_run [CallConnect True, EvError, EvClose, CallDisconnect, TimerFires 1 True] ws_initial)
       = Connecting
   \<and> ws (ws_run [CallConnect True, EvError, EvClose, CallDisconnect, TimerFires 1 True] ws_initial)
       = Some CONNECTING"
  by (simp add: ws_run_def ws_initial_def connect_def handleClose_def handleError_def
      disconnect_def tryReconnect_def updateStatus_def clearTimeout_def maxReconnectAttempts_def
      reconnect_delay_def Let_def power2_eq_square)

section \<open>Properties of the task service and the task view model\<close>

lemma sorted_initial: "mock_getTasks mock_env mock_initial_tasks = mock_initial_tasks"
  by (simp add: mock_getTasks_def js_sort_def mock_env_def mock_initial_tasks_def
      updated_cmp_def example_parseDate_def)

lemma loaded: "tasks loaded_state = mock_initial_tasks"
  by (simp add: loaded_state_def refreshTasks_def svc_getTasks_def apply_filters_def
      sorted_initial Let_def mock_env_def [THEN arg_cong, of useMockData])

lemma set_insert_cmp: "set (insert_cmp c x ys) = insert x (set ys)"
  by (induction ys) auto

lemma set_js_sort: "set (js_sort c xs) = set xs"
  by (induction xs) (simp_all add: js_sort_def set_insert_cmp)

lemma distinct_ids_insert_cmp:
  "distinct (map f (insert_cmp c x ys)) \<longleftrightarrow> f x \<notin> f ` set ys \<and> distinct (map f ys)"
  by (induction ys) (auto simp: set_insert_cmp)

lemma distinct_ids_js_sort: "distinct (map f (js_sort c xs)) \<longleftrightarrow> distinct (map f xs)"
proof (induction xs)
  case Nil
  show ?case by (simp add: js_sort_def)
next
  case (Cons x xs)
  have "js_sort c (x # xs) = insert_cmp c x (js_sort c xs)" by (simp add: js_sort_def)
  with Cons show ?case by (simp add: distinct_ids_insert_cmp set_js_sort)
qed

lemma find_by_id_in: 
  "find (\<lambda>x. task_id x = i) xs = Some t \<Longrightarrow> t \<in> set xs \<and> task_id t = i"
  by (induction xs) (auto split: if_splits)

lemma find_by_id_distinct:
  "distinct (map task_id xs) \<Longrightarrow> t \<in> set xs \<Longrightarrow> find (\<lambda>x. task_id x = task_id t) xs = Some t"
  by (induction xs) force+

lemma find_sorted:
  assumes "distinct (map task_id store)"
  shows "find (\<lambda>x. task_id x = i) (mock_getTasks e store) = find (\<lambda>x. task_id x = i) store"
proof (cases "find (\<lambda>x. task_id x = i) store")
  case None
  then have "\<forall>x \<in> set store. task_id x \<noteq> i" by (simp add: find_None_iff)
  then have "\<forall>x \<in> set (mock_getTasks e store). task_id x \<noteq> i"
    by (simp add: mock_getTasks_def set_js_sort)
  then have "find (\<lambda>x. task_id x = i) (mock_getTasks e store) = None" by (simp add: find_None_iff)
  with None show ?thesis by simp
next
  case (Some t)
  then have t: "t \<in> set store" "task_id t = i" using find_by_id_in by blast+
  then have "t \<in> set (mock_getTasks e store)" by (simp add: mock_getTasks_def set_js_sort)
  moreover from assms have "distinct (map task_id (mock_getTasks e store))"
    by (simp add: mock_getTasks_def distinct_ids_js_sort)
  ultimately have "find (\<lambda>x. task_id x = task_id t) (mock_getTasks e store) = Some t"
    by (rule find_by_id_distinct[rotated])
  with Some t show ?thesis by simp
qed

lemma findIndex_of_find:
  "find P xs = Some t \<Longrightarrow> \<exists>k. findIndex P xs = Some k \<and> k < length xs \<and> xs ! k = t"
  by (induction xs) (auto split: if_splits)

lemma find_update_at_index:
  "findIndex P xs = Some k \<Longrightarrow> P y \<Longrightarrow> find P (xs[k := y]) = Some y"
proof (induction xs arbitrary: k)
  case Nil
  then show ?case by simp
next
  case (Cons x xs)
  then show ?case by (cases "P x") auto
qed

lemma ids_update_at_index:
  "k < length xs \<Longrightarrow> task_id y = task_id (xs ! k) \<Longrightarrow> map task_id (xs[k := y]) = map task_id xs"
  by (simp add: map_update list_update_same_conv)

lemma apply_updates_status_only:
  "task_id (apply_updates stamp (status_only s) t) = task_id t
   \<and> status (apply_updates stamp (status_only s) t) = s"
  by (simp add: apply_updates_def status_only_def)

text \<open>The service's toggle against the mock store.\<close>

lemma svc_toggle_mock:
  assumes mock: "useMockData e" and dist: "distinct (map task_id store)"
    and cur: "status_of i store = Some s"
  shows "\<exists>d store'. svc_toggleTaskStatus e i store =
            (\<lparr>data = Some d, success = True, message = Some ''Task updated successfully''\<rparr>, store')
          \<and> task_id d = i \<and> status d = flip_status s
          \<and> distinct (map task_id store') \<and> status_of i store' = Some (flip_status s)"
proof -
  from cur obtain t where t: "find (\<lambda>x. task_id x = i) store = Some t" and st: "status t = s"
    by (auto simp: status_of_def)
  from findIndex_of_find [OF t] obtain k where
    k: "findIndex (\<lambda>x. task_id x = i) store = Some k" and kl: "k < length store" and kt: "store ! k = t"
    by auto
  from find_by_id_in [OF t] have tid: "task_id t = i" by simp
  define d where "d = apply_updates (nowIso e) (status_only (flip_status s)) t"
  have d1: "task_id d = i" by (simp add: d_def apply_updates_status_only tid)
  have d2: "status d = flip_status s" by (simp add: d_def apply_updates_status_only)
  have get: "svc_getTask e i store = \<lparr>data = Some t, success = True, message = None\<rparr>"
    using mock t by (simp add: svc_getTask_def find_sorted [OF dist])
  have upd: "mock_updateTask e i (status_only (flip_status s)) store = Inr (d, store[k := d])"
    using k kt by (simp add: mock_updateTask_def d_def Let_def)
  have r: "svc_toggleTaskStatus e i store =
      (\<lparr>data = Some d, success = True, message = Some ''Task updated successfully''\<rparr>, store[k := d])"
    using mock st by (simp add: svc_toggleTaskStatus_def get svc_updateTask_def upd Let_def)
  have "task_id d = task_id (store ! k)" by (simp add: kt tid d1)
  with kl have "map task_id (store[k := d]) = map task_id store" by (rule ids_update_at_index)
  with dist have i1: "distinct (map task_id (store[k := d]))" by simp
  from find_update_at_index [OF k, of d] d1
  have "find (\<lambda>x. task_id x = i) (store[k := d]) = Some d" by simp
  then have i2: "status_of i (store[k := d]) = Some (flip_status s)" by (simp add: status_of_def d2)
  from r d1 d2 i1 i2 show ?thesis by (intro exI conjI)
qed

lemma find_optimistic_flip:
  "find (\<lambda>x. task_id x = i) (optimistic_flip i ts) =
     map_option (\<lambda>t. t\<lparr>status := flip_status (status t)\<rparr>) (find (\<lambda>x. task_id x = i) ts)"
  by (induction ts) (simp_all add: optimistic_flip_def)

lemma find_replace_by_id:
  "task_id d = i \<Longrightarrow>
   find (\<lambda>x. task_id x = i) (map (\<lambda>t. if task_id t = i then d else t) ts) =
     map_option (\<lambda>t. d) (find (\<lambda>x. task_id x = i) ts)"
  by (induction ts) simp_all

lemma toggle_success_state:
  assumes "svc_toggleTaskStatus e i store = (r, store')" and "success r" and "data r = Some d"
  shows "fst (toggleTaskStatus e i store st) = Some d
     \<and> fst (snd (toggleTaskStatus e i store st)) = store'
     \<and> tasks (snd (snd (toggleTaskStatus e i store st))) =
         map (\<lambda>t. if task_id t = i then d else t) (optimistic_flip i (tasks st))"
  using assms by (simp add: toggleTaskStatus_def Let_def)

lemma toggle_step_mock:
  assumes mock: "useMockData e" and dist: "distinct (map task_id store)"
    and cur: "status_of i store = Some s" and cached: "status_of i (tasks st) = Some s'"
  shows "\<exists>d store' st'. toggleTaskStatus e i store st = (Some d, store', st')
          \<and> distinct (map task_id store') \<and> status_of i store' = Some (flip_status s)
          \<and> status_of i (tasks st') = Some (flip_status s)"
proof -
  from svc_toggle_mock [OF mock dist cur] obtain d store' where
    r: "svc_toggleTaskStatus e i store =
          (\<lparr>data = Some d, success = True, message = Some ''Task updated successfully''\<rparr>, store')"
    and d1: "task_id d = i" and d2: "status d = flip_status s"
    and s1: "distinct (map task_id store')" and s2: "status_of i store' = Some (flip_status s)"
    by auto
  obtain x y st' where res: "toggleTaskStatus e i store st = (x, y, st')"
    by (cases "toggleTaskStatus e i store st") auto
  from toggle_success_state [OF r, of d st]
  have f1: "x = Some d" and f2: "y = store'"
    and f3: "tasks st' = map (\<lambda>t. if task_id t = i then d else t) (optimistic_flip i (tasks st))"
    by (simp_all add: res)
  from cached obtain c where c: "find (\<lambda>x. task_id x = i) (tasks st) = Some c"
    by (auto simp: status_of_def)
  have "find (\<lambda>x. task_id x = i) (tasks st') = Some d"
    unfolding f3 by (simp add: find_replace_by_id [OF d1] find_optimistic_flip c)
  then have f4: "status_of i (tasks st') = Some (flip_status s)" by (simp add: status_of_def d2)
  from res f1 f2 have "toggleTaskStatus e i store st = (Some d, store', st')" by simp
  with s1 s2 f4 show ?thesis by (intro exI conjI)
qed

lemma xor_status_Suc: "xor_status (flip_status s) (odd n) = xor_status s (odd (Suc n))"
  by (cases s) (simp_all add: xor_status_def flip_status_def)

lemma toggle_run_mock:
  "list_all useMockData es \<Longrightarrow> distinct (map task_id store) \<Longrightarrow>
   status_of i store = Some s \<Longrightarrow> status_of i (tasks st) = Some s' \<Longrightarrow>
   fst (toggle_run es i store st) = length es
   \<and> (es \<noteq> [] \<longrightarrow> status_of i (tasks (snd (snd (toggle_run es i store st)))) = Some (xor_status s (odd (length es))))
   \<and> status_of i (fst (snd (toggle_run es i store st))) = Some (xor_status s (odd (length es)))
   \<and> distinct (map task_id (fst (snd (toggle_run es i store st))))"
proof (induction es arbitrary: store st s s')
  case Nil
  then show ?case by (simp add: xor_status_def)
next
  case (Cons e es)
  from Cons.prems have mock: "useMockData e" and rest: "list_all useMockData es" by simp_all
  from toggle_step_mock [OF mock Cons.prems(2) Cons.prems(3) Cons.prems(4)]
  obtain d store' st' where
    step: "toggleTaskStatus e i store st = (Some d, store', st')"
    and inv: "distinct (map task_id store')" "status_of i store' = Some (flip_status s)"
      "status_of i (tasks st') = Some (flip_status s)"
    by auto
  note ih = Cons.IH [OF rest inv]
  obtain n store'' st'' where run: "toggle_run es i store' st' = (n, store'', st'')"
    by (cases "toggle_run es i store' st'") auto
  have whole: "toggle_run (e # es) i store st = (Suc n, store'', st'')"
    by (simp add: step run)
  from ih run have n: "n = length es"
    and fin: "es \<noteq> [] \<longrightarrow> status_of i (tasks st'') = Some (xor_status (flip_status s) (odd (length es)))"
    and fin2: "status_of i store'' = Some (xor_status (flip_status s) (odd (length es)))"
    and fin3: "distinct (map task_id store'')"
    by simp_all
  have "status_of i (tasks st'') = Some (xor_status (flip_status s) (odd (length es)))"
  proof (cases es)
    case Nil
    with run inv show ?thesis by (simp add: xor_status_def)
  next
    case (Cons a list)
    with fin show ?thesis by simp
  qed
  with fin2 fin3 n whole show ?case by (simp add: xor_status_Suc)
qed

lemma initial_ids: "distinct (map task_id mock_initial_tasks)"
  by (simp add: mock_initial_tasks_def)

lemma initial_status_1: "status_of 1 mock_initial_tasks = Some Active"
  by (simp add: mock_initial_tasks_def status_of_def)

lemma mock_env_mock: "useMockData mock_env"
  by (simp add: mock_env_def)

lemma agent_update_store:
  "distinct (map task_id store_after_agent_update) \<and> status_of 1 store_after_agent_update = Some Completed"
  by (simp add: store_after_agent_update_def mock_updateTask_def mock_initial_tasks_def
      apply_updates_def status_only_def status_of_def Let_def)

lemma svc_toggle_failure_store:
  "\<not> success (fst (svc_toggleTaskStatus e i store)) \<or> data (fst (svc_toggleTaskStatus e i store)) = None
   \<Longrightarrow> snd (svc_toggleTaskStatus e i store) = store"
  by (auto simp: svc_toggleTaskStatus_def svc_updateTask_def Let_def
      split: option.splits sum.splits if_splits prod.splits)

lemma svc_getTasks_success: "success (svc_getTasks e filters store)"
  by (simp add: svc_getTasks_def split: sum.splits)

lemma refreshTasks_result:
  "tasks (refreshTasks e filters store st) = data (svc_getTasks e filters store)
   \<and> isLoading (refreshTasks e filters store st) = False
   \<and> error (refreshTasks e filters store st) = None
   \<and> taskStats (refreshTasks e filters store st) =
       (if success (svc_getTaskStats e store) then data (svc_getTaskStats e store) else defaultStats)"
  by (simp add: refreshTasks_def svc_getTasks_success Let_def)

lemma two_deletes: "store_after_two_deletes = [mock_initial_tasks ! 0]"
  by (simp add: store_after_two_deletes_def mock_deleteTask_def mock_initial_tasks_def)

lemma completes_2: "store_after_agent_completes_2 =
    [mock_initial_tasks ! 0, completed_task_2, mock_initial_tasks ! 2]"
  by (simp add: store_after_agent_completes_2_def mock_updateTask_def mock_initial_tasks_def
      apply_updates_def status_only_def completed_task_2_def mock_env_def Let_def)

lemma reload_after_completes_2:
  "data (svc_getTasks mock_env None store_after_agent_completes_2)
     = [completed_task_2, mock_initial_tasks ! 0, mock_initial_tasks ! 2]"
  by (simp add: svc_getTasks_def apply_filters_def
      completes_2 mock_env_mock mock_getTasks_def js_sort_def updated_cmp_def
      mock_env_def [THEN arg_cong, of parseDate]
      example_parseDate_def completed_task_2_def mock_initial_tasks_def)

lemma reload_after_two_deletes:
  "data (svc_getTasks mock_env None store_after_two_deletes) = [mock_initial_tasks ! 0]"
  by (simp add: svc_getTasks_def apply_filters_def two_deletes mock_env_mock mock_getTasks_def js_sort_def)

lemma findIndex_None_iff: "findIndex P xs = None \<longleftrightarrow> (\<forall>x \<in> set xs. \<not> P x)"
  by (induction xs) auto

lemma svc_toggle_mock_failure:
  assumes mock: "useMockData e"
    and fail: "\<not> success (fst (svc_toggleTaskStatus e i store))
               \<or> data (fst (svc_toggleTaskStatus e i store)) = None"
  shows "find (\<lambda>t. task_id t = i) (mock_getTasks e store) = None"
proof (rule ccontr)
  assume "find (\<lambda>t. task_id t = i) (mock_getTasks e store) \<noteq> None"
  then obtain t where t: "find (\<lambda>t. task_id t = i) (mock_getTasks e store) = Some t" by auto
  from find_by_id_in [OF t] have "t \<in> set store" and "task_id t = i"
    by (simp_all add: mock_getTasks_def set_js_sort)
  then have "findIndex (\<lambda>x. task_id x = i) store \<noteq> None"
    by (auto simp: findIndex_None_iff)
  then obtain k where k: "findIndex (\<lambda>x. task_id x = i) store = Some k" by auto
  have "success (fst (svc_toggleTaskStatus e i store))
      \<and> data (fst (svc_toggleTaskStatus e i store)) \<noteq> None"
    using mock t k
    by (simp add: svc_toggleTaskStatus_def svc_getTask_def svc_updateTask_def mock_updateTask_def Let_def)
  with fail show False by simp
qed

lemma deletes_1: "store_after_agent_deletes_1 = [mock_initial_tasks ! 1, mock_initial_tasks ! 2]"
  by (simp add: store_after_agent_deletes_1_def mock_deleteTask_def mock_initial_tasks_def)

lemma toggle_failure_state:
  assumes "\<not> success (fst (svc_toggleTaskStatus e i store))
           \<or> data (fst (svc_toggleTaskStatus e i store)) = None"
  shows "toggleTaskStatus e i store st =
      (None, store,
       (refreshTasks e None store (st\<lparr>error := None, tasks := optimistic_flip i (tasks st)\<rparr>))
         \<lparr>error := Some (or_string (message (fst (svc_toggleTaskStatus e i store)))
              ''Failed to update task status'')\<rparr>)"
proof -
  obtain r store' where r: "svc_toggleTaskStatus e i store = (r, store')"
    by (cases "svc_toggleTaskStatus e i store") auto
  from assms r have fail: "(if success r then data r else None) = None" by auto
  from svc_toggle_failure_store [OF assms] r have same: "store' = store" by simp
  show ?thesis using fail by (simp add: toggleTaskStatus_def r same Let_def)
qed

lemma getTasks_collection:
  "data (svc_getTasks e None store) =
     (if useMockData e then mock_getTasks e store
      else (case api_getTasks e of Inr d \<Rightarrow> d | Inl err \<Rightarrow> mock_getTasks e store))"
  by (simp add: svc_getTasks_def apply_filters_def split: sum.splits)

text \<open>
  Claim C2, as the code has it. When the confirming request of \<^verbatim>\<open>toggleTaskStatus\<close>
  fails (the response is not a success carrying the task; the service catches what it
  throws), the call returns \<^verbatim>\<open>null\<close>, the error is recorded, loading is off, and the
  cached collection is replaced in full, whatever the optimistic flip had written, by
  the collection \<^verbatim>\<open>getTasks\<close> delivers: the tasks of the mock store with the mock
  backend; in production the list the server sends or, when the list request fails
  too, the tasks of the mock store. The cached status of the id is then the one this
  collection gives it: active when the task was cached as active and the collection
  lists it as active, although the optimistic flip had made it completed; and no
  status at all with the mock backend, which rejects a toggle only when it does not
  hold the task.
\<close>

theorem toggle_failure_reloads:
  assumes "\<not> success (fst (svc_toggleTaskStatus e i store))
           \<or> data (fst (svc_toggleTaskStatus e i store)) = None"
  shows "fst (toggleTaskStatus e i store st) = None
     \<and> fst (snd (toggleTaskStatus e i store st)) = store
     \<and> tasks (snd (snd (toggleTaskStatus e i store st))) =
         (if useMockData e then mock_getTasks e store
          else (case api_getTasks e of Inr d \<Rightarrow> d | Inl err \<Rightarrow> mock_getTasks e store))
     \<and> error (snd (snd (toggleTaskStatus e i store st))) =
         Some (or_string (message (fst (svc_toggleTaskStatus e i store))) ''Failed to update task status'')
     \<and> isLoading (snd (snd (toggleTaskStatus e i store st))) = False
     \<and> status_of i (tasks (snd (snd (toggleTaskStatus e i store st)))) =
         status_of i
           (if useMockData e then mock_getTasks e store
            else (case api_getTasks e of Inr d \<Rightarrow> d | Inl err \<Rightarrow> mock_getTasks e store))
     \<and> (status_of i (tasks st) = Some Active
          \<and> status_of i
               (if useMockData e then mock_getTasks e store
                else (case api_getTasks e of Inr d \<Rightarrow> d | Inl err \<Rightarrow> mock_getTasks e store))
              = Some Active
        \<longrightarrow> status_of i (optimistic_flip i (tasks st)) = Some Completed
          \<and> status_of i (tasks (snd (snd (toggleTaskStatus e i store st)))) = Some Active)
     \<and> (useMockData e \<longrightarrow> status_of i (tasks (snd (snd (toggleTaskStatus e i store st)))) = None)"
proof -
  note res = toggle_failure_state [OF assms, of st]
  have flip: "status_of i (tasks st) = Some Active \<longrightarrow>
      status_of i (optimistic_flip i (tasks st)) = Some Completed"
    by (auto simp: status_of_def find_optimistic_flip flip_status_def)
  have gone: "useMockData e \<longrightarrow> status_of i (mock_getTasks e store) = None"
    using svc_toggle_mock_failure [OF _ assms] by (simp add: status_of_def)
  have t: "tasks (snd (snd (toggleTaskStatus e i store st))) =
         (if useMockData e then mock_getTasks e store
          else (case api_getTasks e of Inr d \<Rightarrow> d | Inl err \<Rightarrow> mock_getTasks e store))"
    unfolding res by (simp add: refreshTasks_result getTasks_collection)
  have r: "fst (toggleTaskStatus e i store st) = None
     \<and> fst (snd (toggleTaskStatus e i store st)) = store
     \<and> error (snd (snd (toggleTaskStatus e i store st))) =
         Some (or_string (message (fst (svc_toggleTaskStatus e i store))) ''Failed to update task status'')
     \<and> isLoading (snd (snd (toggleTaskStatus e i store st))) = False"
    unfolding res by (simp add: refreshTasks_result)
  from r flip gone show ?thesis unfolding t by simp
qed

theorem toggle_failure_reloads_witness:
  "\<not> success (fst (svc_toggleTaskStatus rejecting_env 5 mock_initial_tasks))
   \<and> status_of 5 [task5] = Some Active
   \<and> tasks (snd (snd (toggleTaskStatus rejecting_env 5 mock_initial_tasks
        \<lparr>tasks = [task5], taskStats = defaultStats, isLoading = False, error = None\<rparr>))) = [task5]
   \<and> status_of 5 (tasks (snd (snd (toggleTaskStatus rejecting_env 5 mock_initial_tasks
        \<lparr>tasks = [task5], taskStats = defaultStats, isLoading = False, error = None\<rparr>))))
       = Some Active
   \<and> error (snd (snd (toggleTaskStatus rejecting_env 5 mock_initial_tasks
        \<lparr>tasks = [task5], taskStats = defaultStats, isLoading = False, error = None\<rparr>)))
       = Some ''HTTP error 500''"
proof -
  have f: "fst (svc_toggleTaskStatus rejecting_env 5 mock_initial_tasks) =
      \<lparr>data = None, success = False, message = Some ''HTTP error 500''\<rparr>"
    by (simp add: svc_toggleTaskStatus_def svc_getTask_def svc_updateTask_def rejecting_env_def Let_def)
  have g: "api_getTasks rejecting_env = Inr [task5]"
    by (simp add: rejecting_env_def)
  have a: "status_of 5 [task5] = Some Active" by (simp add: status_of_def task5_def)
  have n: "\<not> success (fst (svc_toggleTaskStatus rejecting_env 5 mock_initial_tasks))
           \<or> data (fst (svc_toggleTaskStatus rejecting_env 5 mock_initial_tasks)) = None"
    by (simp add: f)
  have u: "\<not> useMockData rejecting_env" by (simp add: rejecting_env_def)
  from toggle_failure_reloads [OF n,
      of "\<lparr>tasks = [task5], taskStats = defaultStats, isLoading = False, error = None\<rparr>"]
  show ?thesis by (simp add: f g a u or_string_def)
qed

text \<open>
  The claim as the specification states it fails twice. With the mock backend the task
  list shows task 1 as active, the agent has deleted task 1 from the store, and the
  toggle is answered \<open>Task not found\<close>: after the reload the cache holds tasks 2 and 3
  and no status for id 1, where the claim says \<open>active\<close>. In production the server
  holds task 5 as active and answers both the \<^verbatim>\<open>PATCH\<close> and the list request with an
  error: \<^verbatim>\<open>getTasks\<close> falls back to the mock tasks, so the cache holds the three mock
  tasks, not the authoritative collection, and no status for id 5. The error is
  recorded in both.
\<close>

theorem toggle_failure_reloads_counterexample:
  "status_of 1 (tasks loaded_state) = Some Active
   \<and> fst (svc_toggleTaskStatus mock_env 1 store_after_agent_deletes_1)
       = \<lparr>data = None, success = False, message = Some ''Task not found''\<rparr>
   \<and> map task_id (tasks (snd (snd (toggleTaskStatus mock_env 1 store_after_agent_deletes_1 loaded_state))))
       = [2, 3]
   \<and> status_of 1 (tasks (snd (snd (toggleTaskStatus mock_env 1 store_after_agent_deletes_1 loaded_state))))
       \<noteq> Some Active
   \<and> error (snd (snd (toggleTaskStatus mock_env 1 store_after_agent_deletes_1 loaded_state)))
       = Some ''Task not found''
   \<and> api_getTask list_failing_env = Inr (Some task5) \<and> status task5 = Active
   \<and> fst (svc_toggleTaskStatus list_failing_env 5 mock_initial_tasks)
       = \<lparr>data = None, success = False, message = Some ''HTTP error 500''\<rparr>
   \<and> tasks (snd (snd (toggleTaskStatus list_failing_env 5 mock_initial_tasks
        \<lparr>tasks = [task5], taskStats = defaultStats, isLoading = False, error = None\<rparr>)))
       = mock_initial_tasks
   \<and> status_of 5 (tasks (snd (snd (toggleTaskStatus list_failing_env 5 mock_initial_tasks
        \<lparr>tasks = [task5], taskStats = defaultStats, isLoading = False, error = None\<rparr>))))
       \<noteq> Some Active"
proof -
  have c: "status_of 1 (tasks loaded_state) = Some Active"
    by (simp add: loaded initial_status_1)
  have g: "mock_getTasks mock_env store_after_agent_deletes_1
      = [mock_initial_tasks ! 1, mock_initial_tasks ! 2]"
    by (simp add: deletes_1 mock_getTasks_def js_sort_def updated_cmp_def
        mock_env_def [THEN arg_cong, of parseDate] example_parseDate_def mock_initial_tasks_def)
  have f: "svc_toggleTaskStatus mock_env 1 store_after_agent_deletes_1
      = (\<lparr>data = None, success = False, message = Some ''Task not found''\<rparr>, store_after_agent_deletes_1)"
    by (simp add: svc_toggleTaskStatus_def svc_getTask_def mock_env_mock g mock_initial_tasks_def Let_def)
  have t: "tasks (snd (snd (toggleTaskStatus mock_env 1 store_after_agent_deletes_1 loaded_state)))
      = [mock_initial_tasks ! 1, mock_initial_tasks ! 2]"
    by (simp add: toggleTaskStatus_def f Let_def refreshTasks_result svc_getTasks_def
        apply_filters_def mock_env_mock g)
  have e: "error (snd (snd (toggleTaskStatus mock_env 1 store_after_agent_deletes_1 loaded_state)))
       = Some ''Task not found''"
    by (simp add: toggleTaskStatus_def f Let_def or_string_def)
  have m: "status_of 1 [mock_initial_tasks ! 1, mock_initial_tasks ! 2] \<noteq> Some Active
      \<and> map task_id [mock_initial_tasks ! 1, mock_initial_tasks ! 2] = [2, 3]"
    by (simp add: status_of_def mock_initial_tasks_def)
  have pf: "svc_toggleTaskStatus list_failing_env 5 mock_initial_tasks
      = (\<lparr>data = None, success = False, message = Some ''HTTP error 500''\<rparr>, mock_initial_tasks)"
    by (simp add: svc_toggleTaskStatus_def svc_getTask_def svc_updateTask_def list_failing_env_def
        rejecting_env_def Let_def)
  have pz: "mock_getTasks list_failing_env mock_initial_tasks = mock_initial_tasks"
    by (simp add: mock_getTasks_def js_sort_def list_failing_env_def rejecting_env_def
        mock_initial_tasks_def updated_cmp_def example_parseDate_def)
  have pu: "\<not> useMockData list_failing_env
      \<and> api_getTasks list_failing_env = Inl ''HTTP error 503''"
    by (simp add: list_failing_env_def rejecting_env_def)
  have pt: "tasks (snd (snd (toggleTaskStatus list_failing_env 5 mock_initial_tasks
        \<lparr>tasks = [task5], taskStats = defaultStats, isLoading = False, error = None\<rparr>)))
       = mock_initial_tasks"
    by (simp add: toggleTaskStatus_def pf Let_def refreshTasks_result getTasks_collection pz pu)
  have pa: "api_getTask list_failing_env = Inr (Some task5) \<and> status task5 = Active"
    by (simp add: list_failing_env_def rejecting_env_def task5_def)
  have pn: "status_of 5 mock_initial_tasks \<noteq> Some Active"
    by (simp add: status_of_def mock_initial_tasks_def)
  show ?thesis
    unfolding t e pt using c m pa pn by (simp add: f pf)
qed

lemma svc_toggle_prod:
  "\<not> useMockData e \<Longrightarrow>
   svc_toggleTaskStatus e i store =
     (case api_getTask e of
        Inl err \<Rightarrow> (\<lparr>data = None, success = False, message = Some ''Task not found''\<rparr>, store)
      | Inr None \<Rightarrow> (\<lparr>data = None, success = False, message = Some ''Task not found''\<rparr>, store)
      | Inr (Some t) \<Rightarrow>
          (case api_patchTask e of
             Inr d \<Rightarrow> (\<lparr>data = d, success = True, message = Some ''Task updated successfully''\<rparr>, store)
           | Inl err \<Rightarrow> (\<lparr>data = None, success = False, message = Some err\<rparr>, store)))"
  by (simp add: svc_toggleTaskStatus_def svc_getTask_def svc_updateTask_def Let_def
      split: sum.splits option.splits)

lemma svc_toggle_mock_lookup:
  assumes mock: "useMockData e" and seen: "status_of i (mock_getTasks e store) = Some a"
    and cur: "status_of i store = Some a"
  shows "\<exists>d store'. svc_toggleTaskStatus e i store =
            (\<lparr>data = Some d, success = True, message = Some ''Task updated successfully''\<rparr>, store')
          \<and> task_id d = i \<and> status d = flip_status a"
proof -
  from seen obtain c where c: "find (\<lambda>x. task_id x = i) (mock_getTasks e store) = Some c"
    and sc: "status c = a"
    by (auto simp: status_of_def)
  from cur obtain t where t: "find (\<lambda>x. task_id x = i) store = Some t"
    by (auto simp: status_of_def)
  from findIndex_of_find [OF t] obtain k where
    k: "findIndex (\<lambda>x. task_id x = i) store = Some k" and kt: "store ! k = t"
    by auto
  from find_by_id_in [OF t] have tid: "task_id t = i" by simp
  define d where "d = apply_updates (nowIso e) (status_only (flip_status a)) t"
  have d1: "task_id d = i" by (simp add: d_def apply_updates_status_only tid)
  have d2: "status d = flip_status a" by (simp add: d_def apply_updates_status_only)
  have get: "svc_getTask e i store = \<lparr>data = Some c, success = True, message = None\<rparr>"
    using mock c by (simp add: svc_getTask_def)
  have upd: "mock_updateTask e i (status_only (flip_status a)) store = Inr (d, store[k := d])"
    using k kt by (simp add: mock_updateTask_def d_def Let_def)
  have r: "svc_toggleTaskStatus e i store =
      (\<lparr>data = Some d, success = True, message = Some ''Task updated successfully''\<rparr>, store[k := d])"
    using mock sc by (simp add: svc_toggleTaskStatus_def get svc_updateTask_def upd Let_def)
  from r d1 d2 show ?thesis by (intro exI conjI)
qed

lemma replace_status:
  assumes "status_of i ts = Some s'" and "task_id d = i"
  shows "status_of i (map (\<lambda>t. if task_id t = i then d else t) (optimistic_flip i ts)) = Some (status d)"
proof -
  from assms(1) obtain c where "find (\<lambda>x. task_id x = i) ts = Some c"
    by (auto simp: status_of_def)
  then show ?thesis
    by (simp add: status_of_def find_replace_by_id [OF assms(2)] find_optimistic_flip)
qed

lemma toggle_step_agrees:
  assumes agree: "backend_agrees e i store a" and cached: "status_of i (tasks st) = Some s'"
  shows "(fst (toggleTaskStatus e i store st) \<noteq> None) = toggle_ok e i store
     \<and> fst (snd (toggleTaskStatus e i store st)) = snd (svc_toggleTaskStatus e i store)
     \<and> status_of i (tasks (snd (snd (toggleTaskStatus e i store st))))
         = Some (if toggle_ok e i store then flip_status a else a)"
proof (cases "toggle_ok e i store")
  case True
  obtain r store' where r: "svc_toggleTaskStatus e i store = (r, store')"
    by (cases "svc_toggleTaskStatus e i store") auto
  from True r obtain d where d: "success r" "data r = Some d"
    by (auto simp: toggle_ok_def)
  have props: "task_id d = i \<and> status d = flip_status a"
  proof (cases "useMockData e")
    case True
    with agree have "status_of i (mock_getTasks e store) = Some a" "status_of i store = Some a"
      by (simp_all add: backend_agrees_def)
    from svc_toggle_mock_lookup [OF True this] r d show ?thesis by auto
  next
    case False
    with agree True r d show ?thesis
      by (auto simp: backend_agrees_def svc_toggle_prod split: sum.splits option.splits)
  qed
  from toggle_success_state [OF r d, of st]
  have f: "fst (toggleTaskStatus e i store st) = Some d"
    "fst (snd (toggleTaskStatus e i store st)) = store'"
    "tasks (snd (snd (toggleTaskStatus e i store st))) =
       map (\<lambda>t. if task_id t = i then d else t) (optimistic_flip i (tasks st))"
    by simp_all
  from replace_status [OF cached, of d] props
  have "status_of i (tasks (snd (snd (toggleTaskStatus e i store st)))) = Some (flip_status a)"
    by (simp add: f)
  with True f r show ?thesis by simp
next
  case False
  then have fail: "\<not> success (fst (svc_toggleTaskStatus e i store))
      \<or> data (fst (svc_toggleTaskStatus e i store)) = None"
    by (simp add: toggle_ok_def)
  note res = toggle_failure_state [OF fail, of st]
  have prod: "\<not> useMockData e"
  proof
    assume m: "useMockData e"
    with agree have "status_of i (mock_getTasks e store) = Some a" "status_of i store = Some a"
      by (simp_all add: backend_agrees_def)
    from svc_toggle_mock_lookup [OF m this] have "toggle_ok e i store"
      by (auto simp: toggle_ok_def)
    with False show False by simp
  qed
  with agree False obtain ts where ts: "api_getTasks e = Inr ts" "status_of i ts = Some a"
    by (auto simp: backend_agrees_def split: sum.splits)
  have "tasks (snd (snd (toggleTaskStatus e i store st))) = ts"
    unfolding res using prod ts by (simp add: refreshTasks_result getTasks_collection)
  moreover have "fst (toggleTaskStatus e i store st) = None"
    "fst (snd (toggleTaskStatus e i store st)) = store"
    unfolding res by simp_all
  moreover from svc_toggle_failure_store [OF fail] have "snd (svc_toggleTaskStatus e i store) = store" .
  ultimately show ?thesis using False ts by simp
qed

lemma toggle_run_agrees:
  "backend_agrees_run es i store a \<Longrightarrow> status_of i (tasks st) = Some a \<Longrightarrow>
   status_of i (tasks (snd (snd (toggle_run es i store st))))
     = Some (xor_status a (odd (fst (toggle_run es i store st))))"
proof (induction es arbitrary: store a st)
  case Nil
  then show ?case by (simp add: xor_status_def)
next
  case (Cons e es)
  from Cons.prems have agree: "backend_agrees e i store a"
    and rest: "backend_agrees_run es i (snd (svc_toggleTaskStatus e i store))
          (if toggle_ok e i store then flip_status a else a)"
    by simp_all
  obtain r store' st' where step: "toggleTaskStatus e i store st = (r, store', st')"
    by (cases "toggleTaskStatus e i store st") auto
  from toggle_step_agrees [OF agree Cons.prems(2)] step
  have r: "(r \<noteq> None) = toggle_ok e i store"
    and s: "store' = snd (svc_toggleTaskStatus e i store)"
    and c: "status_of i (tasks st') = Some (if toggle_ok e i store then flip_status a else a)"
    by simp_all
  obtain n store'' st'' where run: "toggle_run es i store' st' = (n, store'', st'')"
    by (cases "toggle_run es i store' st'") auto
  from Cons.IH [OF rest [folded s] c] run
  have fin: "status_of i (tasks st'') =
      Some (xor_status (if toggle_ok e i store then flip_status a else a) (odd n))"
    by simp
  show ?case
  proof (cases "toggle_ok e i store")
    case True
    with r obtain d where "r = Some d" by auto
    with True fin step run show ?thesis by (simp add: xor_status_Suc)
  next
    case False
    with r have "r = None" by simp
    with False fin step run show ?thesis by simp
  qed
qed

lemma backend_agrees_run_mock:
  "list_all useMockData es \<Longrightarrow> distinct (map task_id store) \<Longrightarrow> status_of i store = Some a \<Longrightarrow>
   backend_agrees_run es i store a"
proof (induction es arbitrary: store a)
  case Nil
  show ?case by simp
next
  case (Cons e es)
  from Cons.prems have mock: "useMockData e" and rest: "list_all useMockData es" by simp_all
  from svc_toggle_mock [OF mock Cons.prems(2) Cons.prems(3)] obtain d store' where
    r: "svc_toggleTaskStatus e i store =
          (\<lparr>data = Some d, success = True, message = Some ''Task updated successfully''\<rparr>, store')"
    and s1: "distinct (map task_id store')" and s2: "status_of i store' = Some (flip_status a)"
    by auto
  have ok: "toggle_ok e i store" by (simp add: toggle_ok_def r)
  have seen: "status_of i (mock_getTasks e store) = Some a"
    using Cons.prems(3) by (simp add: status_of_def find_sorted [OF Cons.prems(2)])
  from Cons.IH [OF rest s1 s2] have "backend_agrees_run es i store' (flip_status a)" .
  with mock Cons.prems seen ok r show ?case by (simp add: backend_agrees_def)
qed

lemma mock_update_status:
  assumes dist: "distinct (map task_id store)" and cur: "status_of i store = Some s"
  shows "\<exists>t store'. mock_updateTask e i (status_only s2) store = Inr (t, store')
          \<and> distinct (map task_id store') \<and> status_of i store' = Some s2"
proof -
  from cur obtain t where t: "find (\<lambda>x. task_id x = i) store = Some t"
    by (auto simp: status_of_def)
  from findIndex_of_find [OF t] obtain k where
    k: "findIndex (\<lambda>x. task_id x = i) store = Some k" and kl: "k < length store" and kt: "store ! k = t"
    by auto
  from find_by_id_in [OF t] have tid: "task_id t = i" by simp
  define d where "d = apply_updates (nowIso e) (status_only s2) t"
  have d1: "task_id d = i" by (simp add: d_def apply_updates_status_only tid)
  have d2: "status d = s2" by (simp add: d_def apply_updates_status_only)
  have upd: "mock_updateTask e i (status_only s2) store = Inr (d, store[k := d])"
    using k kt by (simp add: mock_updateTask_def d_def Let_def)
  have "task_id d = task_id (store ! k)" by (simp add: kt tid d1)
  with kl have "map task_id (store[k := d]) = map task_id store" by (rule ids_update_at_index)
  with dist have i1: "distinct (map task_id (store[k := d]))" by simp
  from find_update_at_index [OF k, of d] d1
  have "find (\<lambda>x. task_id x = i) (store[k := d]) = Some d" by simp
  then have i2: "status_of i (store[k := d]) = Some s2" by (simp add: status_of_def d2)
  from upd i1 i2 show ?thesis by (intro exI conjI)
qed

lemma two_toggles:
  "fst after_two_toggles = 2
   \<and> distinct (map task_id (fst (snd after_two_toggles)))
   \<and> status_of 1 (fst (snd after_two_toggles)) = Some Active
   \<and> status_of 1 (tasks (snd (snd after_two_toggles))) = Some Active"
proof -
  have c: "status_of 1 (tasks loaded_state) = Some Active"
    by (simp add: loaded initial_status_1)
  have m: "list_all useMockData [mock_env, mock_env]" by (simp add: mock_env_mock)
  from toggle_run_mock [OF m initial_ids initial_status_1 c]
  show ?thesis by (simp add: after_two_toggles_def xor_status_def)
qed

lemma then_agent_completes_1:
  "distinct (map task_id store_then_agent_completes_1)
   \<and> status_of 1 store_then_agent_completes_1 = Some Completed"
proof -
  from two_toggles have d: "distinct (map task_id (fst (snd after_two_toggles)))"
    and s: "status_of 1 (fst (snd after_two_toggles)) = Some Active"
    by simp_all
  from mock_update_status [OF d s, of mock_env Completed] show ?thesis
    by (auto simp: store_then_agent_completes_1_def)
qed

text \<open>
  Claim C3, as the code has it. Take a task that the cache lists and a finite sequence
  of \<^verbatim>\<open>toggleTaskStatus\<close> calls on its id, in either build, during which the backend
  holds the task and nothing but these toggles changes it: at each call the backend
  shows the task in the status that the successful toggles so far have left, a
  successful toggle is answered with the task in the flipped status, and the reload
  after a failed toggle is answered by the backend itself. Then, when the cached status
  agreed with the backend's at the start, the final cached status is the XOR of the
  initial cached status and the parity of the successful toggles; and after at least
  one call it is the XOR of the backend's initial status and that parity, whatever
  the cache showed before.
\<close>

theorem toggle_parity:
  assumes "backend_agrees_run es i store a" and "status_of i (tasks st) = Some s'"
  shows "(s' = a \<longrightarrow>
          status_of i (tasks (snd (snd (toggle_run es i store st))))
            = Some (xor_status s' (odd (fst (toggle_run es i store st)))))
     \<and> (es \<noteq> [] \<longrightarrow>
          status_of i (tasks (snd (snd (toggle_run es i store st))))
            = Some (xor_status a (odd (fst (toggle_run es i store st)))))"
proof (cases es)
  case Nil
  with assms show ?thesis by (simp add: xor_status_def)
next
  case (Cons e es')
  with assms have agree: "backend_agrees e i store a"
    and rest: "backend_agrees_run es' i (snd (svc_toggleTaskStatus e i store))
          (if toggle_ok e i store then flip_status a else a)"
    by simp_all
  obtain r store' st' where step: "toggleTaskStatus e i store st = (r, store', st')"
    by (cases "toggleTaskStatus e i store st") auto
  from toggle_step_agrees [OF agree assms(2)] step
  have r: "(r \<noteq> None) = toggle_ok e i store"
    and s: "store' = snd (svc_toggleTaskStatus e i store)"
    and c: "status_of i (tasks st') = Some (if toggle_ok e i store then flip_status a else a)"
    by simp_all
  obtain n store'' st'' where run: "toggle_run es' i store' st' = (n, store'', st'')"
    by (cases "toggle_run es' i store' st'") auto
  from toggle_run_agrees [OF rest [folded s] c] run
  have fin: "status_of i (tasks st'') =
      Some (xor_status (if toggle_ok e i store then flip_status a else a) (odd n))"
    by simp
  have "status_of i (tasks (snd (snd (toggle_run es i store st))))
            = Some (xor_status a (odd (fst (toggle_run es i store st))))"
  proof (cases "toggle_ok e i store")
    case True
    with r obtain d where "r = Some d" by auto
    with True fin step run Cons show ?thesis by (simp add: xor_status_Suc)
  next
    case False
    with r have "r = None" by simp
    with False fin step run Cons show ?thesis by simp
  qed
  then show ?thesis by simp
qed

text \<open>
  An instance in the production build: the server rejects the first toggle of task 5
  and the view model rolls back by reloading, then the server accepts the second.
  One toggle has succeeded and the cache shows the task completed.
\<close>

theorem toggle_parity_witness:
  "backend_agrees_run [rejecting_env, accepting_env] 5 mock_initial_tasks Active
   \<and> status_of 5 [task5] = Some Active
   \<and> fst (toggle_run [rejecting_env, accepting_env] 5 mock_initial_tasks
        \<lparr>tasks = [task5], taskStats = defaultStats, isLoading = False, error = None\<rparr>) = 1
   \<and> status_of 5 (tasks (snd (snd (toggle_run [rejecting_env, accepting_env] 5 mock_initial_tasks
        \<lparr>tasks = [task5], taskStats = defaultStats, isLoading = False, error = None\<rparr>))))
       = Some Completed"
proof -
  have r: "svc_toggleTaskStatus rejecting_env 5 mock_initial_tasks =
      (\<lparr>data = None, success = False, message = Some ''HTTP error 500''\<rparr>, mock_initial_tasks)"
    by (simp add: svc_toggleTaskStatus_def svc_getTask_def svc_updateTask_def rejecting_env_def Let_def)
  have k: "svc_toggleTaskStatus accepting_env 5 mock_initial_tasks =
      (\<lparr>data = Some (task5\<lparr>status := Completed\<rparr>), success = True,
        message = Some ''Task updated successfully''\<rparr>, mock_initial_tasks)"
    by (simp add: svc_toggleTaskStatus_def svc_getTask_def svc_updateTask_def accepting_env_def
        rejecting_env_def Let_def)
  have a: "status_of 5 [task5] = Some Active" by (simp add: status_of_def task5_def)
  have b: "backend_agrees_run [rejecting_env, accepting_env] 5 mock_initial_tasks Active"
    by (simp add: backend_agrees_def toggle_ok_def r k a)
      (simp add: rejecting_env_def accepting_env_def task5_def flip_status_def status_of_def)
  have n1: "\<not> success (fst (svc_toggleTaskStatus rejecting_env 5 mock_initial_tasks))
           \<or> data (fst (svc_toggleTaskStatus rejecting_env 5 mock_initial_tasks)) = None"
    by (simp add: r)
  obtain st1 where t1: "toggleTaskStatus rejecting_env 5 mock_initial_tasks
        \<lparr>tasks = [task5], taskStats = defaultStats, isLoading = False, error = None\<rparr>
      = (None, mock_initial_tasks, st1)"
    using toggle_failure_state [OF n1] by simp
  from toggle_success_state [OF k, where st = st1]
  have t2: "fst (toggleTaskStatus accepting_env 5 mock_initial_tasks st1)
      = Some (task5\<lparr>status := Completed\<rparr>)"
    by simp
  have n: "fst (toggle_run [rejecting_env, accepting_env] 5 mock_initial_tasks
        \<lparr>tasks = [task5], taskStats = defaultStats, isLoading = False, error = None\<rparr>) = 1"
    using t2 by (auto simp: t1 split: prod.splits)
  have a': "status_of 5 (tasks \<lparr>tasks = [task5], taskStats = defaultStats, isLoading = False,
      error = None\<rparr>) = Some Active"
    by (simp add: a)
  from toggle_parity [OF b a']
  have fin: "status_of 5 (tasks (snd (snd (toggle_run [rejecting_env, accepting_env] 5
        mock_initial_tasks
        \<lparr>tasks = [task5], taskStats = defaultStats, isLoading = False, error = None\<rparr>))))
      = Some (xor_status Active (odd (fst (toggle_run [rejecting_env, accepting_env] 5
        mock_initial_tasks
        \<lparr>tasks = [task5], taskStats = defaultStats, isLoading = False, error = None\<rparr>))))"
    by (simp del: toggle_run.simps)
  have x: "xor_status Active (odd (1 :: nat)) = Completed"
    by (simp add: xor_status_def flip_status_def)
  from fin have fin': "status_of 5 (tasks (snd (snd (toggle_run [rejecting_env, accepting_env] 5
        mock_initial_tasks
        \<lparr>tasks = [task5], taskStats = defaultStats, isLoading = False, error = None\<rparr>))))
      = Some Completed"
    unfolding n x .
  from a b n fin' show ?thesis by (intro conjI)
qed

text \<open>
  The claim as the specification states it fails in three ways, in each of which the
  task is never deleted. A cache behind the store: the task list has loaded the initial
  tasks (task 1 active) and the agent has marked task 1 completed; one toggle succeeds
  and confirms \<open>active\<close>, the flip of the stored status, so the cached status is
  \<open>active\<close> as before. An update between the toggles: two toggles of task 1, then the
  agent marks it completed, then a third toggle; three toggles have succeeded from
  \<open>active\<close> and the cache shows \<open>active\<close>. A reload served by the mock data: in the
  production build with the server out of reach the toggle of the server's task 3 fails,
  the list request of the reload fails too, and the cache is replaced by the mock tasks,
  where task 3 is completed, with no successful toggle.
\<close>

theorem toggle_parity_counterexample:
  "status_of 1 (tasks loaded_state) = Some Active
   \<and> status_of 1 store_after_agent_update = Some Completed
   \<and> fst (toggle_run [mock_env] 1 store_after_agent_update loaded_state) = 1
   \<and> status_of 1 (fst (snd (toggle_run [mock_env] 1 store_after_agent_update loaded_state)))
       = Some Active
   \<and> status_of 1 (tasks (snd (snd (toggle_run [mock_env] 1 store_after_agent_update loaded_state))))
       = Some Active
   \<and> status_of 1 (tasks (snd (snd (toggle_run [mock_env] 1 store_after_agent_update loaded_state))))
       \<noteq> Some (xor_status Active
            (odd (fst (toggle_run [mock_env] 1 store_after_agent_update loaded_state))))
   \<and> fst after_two_toggles
       + fst (toggle_run [mock_env] 1 store_then_agent_completes_1 (snd (snd after_two_toggles))) = 3
   \<and> status_of 1 (tasks (snd (snd
        (toggle_run [mock_env] 1 store_then_agent_completes_1 (snd (snd after_two_toggles))))))
       = Some Active
   \<and> xor_status Active (odd (3 :: nat)) = Completed
   \<and> status_of 3 [server_task_3] = Some Active
   \<and> fst (toggle_run [down_env] 3 mock_initial_tasks
        \<lparr>tasks = [server_task_3], taskStats = defaultStats, isLoading = False, error = None\<rparr>) = 0
   \<and> status_of 3 (tasks (snd (snd (toggle_run [down_env] 3 mock_initial_tasks
        \<lparr>tasks = [server_task_3], taskStats = defaultStats, isLoading = False, error = None\<rparr>))))
       = Some Completed
   \<and> xor_status Active (odd (0 :: nat)) = Active"
proof -
  have c: "status_of 1 (tasks loaded_state) = Some Active"
    by (simp add: loaded initial_status_1)
  have m: "list_all useMockData [mock_env]" by (simp add: mock_env_mock)
  note p1 = toggle_run_mock [OF m agent_update_store [THEN conjunct1]
      agent_update_store [THEN conjunct2] c]
  from two_toggles have c2: "status_of 1 (tasks (snd (snd after_two_toggles))) = Some Active"
    by simp
  note p2 = toggle_run_mock [OF m then_agent_completes_1 [THEN conjunct1]
      then_agent_completes_1 [THEN conjunct2] c2]
  have f: "svc_toggleTaskStatus down_env 3 mock_initial_tasks
      = (\<lparr>data = None, success = False, message = Some ''Task not found''\<rparr>, mock_initial_tasks)"
    by (simp add: svc_toggleTaskStatus_def svc_getTask_def down_env_def Let_def)
  have z: "mock_getTasks down_env mock_initial_tasks = mock_initial_tasks"
    by (simp add: mock_getTasks_def js_sort_def down_env_def mock_initial_tasks_def
        updated_cmp_def example_parseDate_def)
  have u: "\<not> useMockData down_env \<and> api_getTasks down_env = Inl ''Failed to fetch''"
    by (simp add: down_env_def)
  have t: "toggleTaskStatus down_env 3 mock_initial_tasks
        \<lparr>tasks = [server_task_3], taskStats = defaultStats, isLoading = False, error = None\<rparr>
      = (None, mock_initial_tasks,
         (refreshTasks down_env None mock_initial_tasks
            \<lparr>tasks = optimistic_flip 3 [server_task_3], taskStats = defaultStats,
              isLoading = False, error = None\<rparr>)
           \<lparr>error := Some ''Task not found''\<rparr>)"
    by (simp add: toggleTaskStatus_def f Let_def or_string_def)
  have d: "fst (toggle_run [down_env] 3 mock_initial_tasks
        \<lparr>tasks = [server_task_3], taskStats = defaultStats, isLoading = False, error = None\<rparr>) = 0
   \<and> tasks (snd (snd (toggle_run [down_env] 3 mock_initial_tasks
        \<lparr>tasks = [server_task_3], taskStats = defaultStats, isLoading = False, error = None\<rparr>)))
       = mock_initial_tasks"
    by (simp add: t refreshTasks_result getTasks_collection u z)
  have s3: "status_of 3 mock_initial_tasks = Some Completed \<and> status_of 3 [server_task_3] = Some Active"
    by (simp add: status_of_def mock_initial_tasks_def server_task_3_def)
  from p1 p2 c agent_update_store two_toggles d s3
  show ?thesis by (simp add: xor_status_def flip_status_def)
qed


text \<open>
  Claim C1, as the code has it. The handler registered for agent-issued intents does
  not read the intent: for every intent it reloads. The cached collection becomes
  the full list \<^verbatim>\<open>getTasks\<close> delivers (the mock store most recently updated first, or
  the server's list, or the mock store when the request fails), the statistics become
  those of \<^verbatim>\<open>getTaskStats\<close> (the zero default when that fails), loading is off and
  the error is cleared.
\<close>

theorem onTaskAction_reloads:
  "onTaskAction e action store st = onTaskAction e action' store st
   \<and> tasks (onTaskAction e action store st) =
       (if useMockData e then mock_getTasks e store
        else (case api_getTasks e of Inr d \<Rightarrow> d | Inl err \<Rightarrow> mock_getTasks e store))
   \<and> taskStats (onTaskAction e action store st) =
       (if success (svc_getTaskStats e store) then data (svc_getTaskStats e store) else defaultStats)
   \<and> isLoading (onTaskAction e action store st) = False
   \<and> error (onTaskAction e action store st) = None"
  by (simp add: onTaskAction_def refreshTasks_result svc_getTasks_def apply_filters_def
      split: sum.splits)

theorem onTaskAction_reloads_witness:
  "onTaskAction mock_env (ActUpdate completed_task_2) store_after_agent_completes_2 loaded_state
     = onTaskAction mock_env (ActDelete 7) store_after_agent_completes_2 loaded_state
   \<and> map task_id
        (tasks (onTaskAction mock_env (ActUpdate completed_task_2) store_after_agent_completes_2 loaded_state))
     = [2, 1, 3]
   \<and> error (onTaskAction mock_env (ActUpdate completed_task_2) store_after_agent_completes_2 loaded_state) = None"
proof -
  note w = onTaskAction_reloads [of mock_env "ActUpdate completed_task_2"
      store_after_agent_completes_2 loaded_state "ActDelete 7"]
  have s: "mock_getTasks mock_env store_after_agent_completes_2
      = [completed_task_2, mock_initial_tasks ! 0, mock_initial_tasks ! 2]"
    using reload_after_completes_2 by (simp add: svc_getTasks_def apply_filters_def mock_env_mock)
  from w have w1: "onTaskAction mock_env (ActUpdate completed_task_2) store_after_agent_completes_2 loaded_state
     = onTaskAction mock_env (ActDelete 7) store_after_agent_completes_2 loaded_state"
    by (rule conjunct1)
  from w [THEN conjunct2, THEN conjunct1]
  have "tasks (onTaskAction mock_env (ActUpdate completed_task_2) store_after_agent_completes_2 loaded_state)
     = mock_getTasks mock_env store_after_agent_completes_2"
    by (simp add: mock_env_mock)
  then have w2: "map task_id
        (tasks (onTaskAction mock_env (ActUpdate completed_task_2) store_after_agent_completes_2 loaded_state))
     = [2, 1, 3]"
    by (simp add: s completed_task_2_def mock_initial_tasks_def)
  from w [THEN conjunct2, THEN conjunct2, THEN conjunct2, THEN conjunct2]
  have w3: "error (onTaskAction mock_env (ActUpdate completed_task_2) store_after_agent_completes_2 loaded_state) = None" .
  from w1 w2 w3 show ?thesis by (intro conjI)
qed

text \<open>
  The claim as the specification states it fails twice. After the agent has marked
  task 2 completed, the handler leaves the updated task at the head of the cache
  (the reload sorts by update time), where replacing the entry by id leaves it second.
  And on a cache that still shows task 3, which the user has deleted in the task list,
  the handler for the agent's deletion of task 2 also drops task 3, which the intent
  does not name.
\<close>

theorem onTaskAction_counterexample:
  "map task_id (tasks loaded_state) = [1, 2, 3]
   \<and> map task_id
        (tasks (onTaskAction mock_env (ActUpdate completed_task_2) store_after_agent_completes_2 loaded_state))
       = [2, 1, 3]
   \<and> map task_id (spec_applyMutation (ActUpdate completed_task_2) (tasks loaded_state)) = [1, 2, 3]
   \<and> tasks (onTaskAction mock_env (ActUpdate completed_task_2) store_after_agent_completes_2 loaded_state)
       \<noteq> spec_applyMutation (ActUpdate completed_task_2) (tasks loaded_state)
   \<and> map task_id (tasks (onTaskAction mock_env (ActDelete 2) store_after_two_deletes loaded_state)) = [1]
   \<and> map task_id (spec_applyMutation (ActDelete 2) (tasks loaded_state)) = [1, 3]
   \<and> tasks (onTaskAction mock_env (ActDelete 2) store_after_two_deletes loaded_state)
       \<noteq> spec_applyMutation (ActDelete 2) (tasks loaded_state)"
proof -
  have a: "tasks (onTaskAction mock_env (ActUpdate completed_task_2) store_after_agent_completes_2 loaded_state)
       = [completed_task_2, mock_initial_tasks ! 0, mock_initial_tasks ! 2]"
    by (simp add: onTaskAction_def refreshTasks_result reload_after_completes_2)
  have b: "spec_applyMutation (ActUpdate completed_task_2) (tasks loaded_state)
       = [mock_initial_tasks ! 0, completed_task_2, mock_initial_tasks ! 2]"
    by (simp add: loaded mock_initial_tasks_def completed_task_2_def)
  have c: "tasks (onTaskAction mock_env (ActDelete 2) store_after_two_deletes loaded_state)
       = [mock_initial_tasks ! 0]"
    by (simp add: onTaskAction_def refreshTasks_result reload_after_two_deletes)
  have d: "spec_applyMutation (ActDelete 2) (tasks loaded_state)
       = [mock_initial_tasks ! 0, mock_initial_tasks ! 2]"
    by (simp add: loaded mock_initial_tasks_def)
  show ?thesis
    unfolding a b c d by (simp add: loaded mock_initial_tasks_def completed_task_2_def)
qed

end
